theory Spec2Isabelle
  imports Main
begin

section \<open>Strings and numbers of the host language\<close>

text \<open>
  A string is a list of code units; the model covers the code units 0 to 255, which
  Isabelle's \<open>char\<close> has. A number is a binary64 value, with the arithmetic and the
  printing of the language (below). An object used as a dictionary is a map over its own
  properties. Where the object has no property of the name asked for, the language looks
  the name up in \<open>Object.prototype\<close>; the names found there are listed below, and
  \<open>plain_label\<close> marks the labels whose lookups cannot find one. The theorems that say
  what becomes of a label without an entry of its own say it of plain labels.
\<close>

definition newline :: char where
  "newline = CHR 0x0A"

text \<open>The white space of \<open>\s\<close> and of \<open>trim\<close>: tab, line feed, vertical tab, form feed,
  carriage return, space and the no-break space.\<close>

definition is_space :: "char \<Rightarrow> bool" where
  "is_space c = (c \<in> set [CHR 0x09, CHR 0x0A, CHR 0x0B, CHR 0x0C, CHR 0x0D, CHR 0x20, CHR 0xA0])"

text \<open>The line terminators, which \<open>.\<close> does not match.\<close>

definition is_line_terminator :: "char \<Rightarrow> bool" where
  "is_line_terminator c = (c \<in> set [CHR 0x0A, CHR 0x0D])"

definition is_digit :: "char \<Rightarrow> bool" where
  "is_digit c = (c \<in> set ''0123456789'')"

text \<open>A word character of \<open>\b\<close>: a letter, a digit or the underscore.\<close>

definition is_word_char :: "char \<Rightarrow> bool" where
  "is_word_char c =
     (c \<in> set ''abcdefghijklmnopqrstuvwxyzABCDEFGHIJKLMNOPQRSTUVWXYZ0123456789_'')"

text \<open>\<open>toLowerCase\<close> on one code unit: the letters A to Z, and the capital letters of the
  upper half of the range (0xC0 to 0xDE, the multiplication sign 0xD7 apart).\<close>

definition lower_char :: "char \<Rightarrow> char" where
  "lower_char c =
     (let n = (of_char c :: nat) in
      if (65 \<le> n \<and> n \<le> 90) \<or> (192 \<le> n \<and> n \<le> 222 \<and> n \<noteq> 215)
      then char_of (n + 32) else c)"

definition toLowerCase :: "string \<Rightarrow> string" where
  "toLowerCase s = map lower_char s"

text \<open>\<open>toUpperCase\<close> is called on a zone token only (a \<open>Z\<close> or \<open>z\<close> and a digit), so the
  letters a to z are all it has to convert.\<close>

definition upper_char :: "char \<Rightarrow> char" where
  "upper_char c =
     (let n = (of_char c :: nat) in
      if 97 \<le> n \<and> n \<le> 122 then char_of (n - 32) else c)"

definition toUpperCase :: "string \<Rightarrow> string" where
  "toUpperCase s = map upper_char s"

definition trim :: "string \<Rightarrow> string" where
  "trim s = rev (dropWhile is_space (rev (dropWhile is_space s)))"

definition startsWith :: "string \<Rightarrow> string \<Rightarrow> bool" where
  "startsWith s p = (take (length p) s = p)"

text \<open>\<open>s.includes(p)\<close>: \<open>p\<close> occurs in \<open>s\<close> at some position.\<close>

fun includes_str :: "string \<Rightarrow> string \<Rightarrow> bool" where
  "includes_str [] p = (p = [])"
| "includes_str (c # cs) p = (startsWith (c # cs) p \<or> includes_str cs p)"

text \<open>\<open>s.replace(p, '')\<close> with a string pattern: the first occurrence of \<open>p\<close> is removed.\<close>

fun remove_first :: "string \<Rightarrow> string \<Rightarrow> string" where
  "remove_first [] p = []"
| "remove_first (c # cs) p =
     (if startsWith (c # cs) p then drop (length p) (c # cs) else c # remove_first cs p)"

text \<open>\<open>s.split('\n')\<close>: the pieces between the line feeds; the empty string has one piece.\<close>

fun split_lines :: "string \<Rightarrow> string list" where
  "split_lines [] = [[]]"
| "split_lines (c # cs) =
     (if c = newline then [] # split_lines cs
      else (case split_lines cs of l # ls \<Rightarrow> (c # l) # ls | [] \<Rightarrow> [[c]]))"

text \<open>\<open>xs.join(sep)\<close>.\<close>

fun join :: "string \<Rightarrow> string list \<Rightarrow> string" where
  "join sep [] = []"
| "join sep [x] = x"
| "join sep (x # y # ys) = x @ sep @ join sep (y # ys)"

text \<open>The first answer that a list of attempts gives.\<close>

fun first_some :: "('a \<Rightarrow> 'b option) \<Rightarrow> 'a list \<Rightarrow> 'b option" where
  "first_some f [] = None"
| "first_some f (x # xs) = (case f x of Some y \<Rightarrow> Some y | None \<Rightarrow> first_some f xs)"

text \<open>The names of the members of \<open>Object.prototype\<close>. For a plain label neither the
  lookup of the label in a dictionary that has no such property nor the lookup of the
  trimmed lower-case label in the lexicon of intensities finds one of them.\<close>

definition object_prototype_members :: "string list" where
  "object_prototype_members =
     [''constructor'', ''__defineGetter__'', ''__defineSetter__'', ''hasOwnProperty'',
      ''__lookupGetter__'', ''__lookupSetter__'', ''isPrototypeOf'', ''propertyIsEnumerable'',
      ''toString'', ''valueOf'', ''__proto__'', ''toLocaleString'']"

definition plain_label :: "string \<Rightarrow> bool" where
  "plain_label label =
     (label \<notin> set object_prototype_members
      \<and> trim (toLowerCase label) \<notin> set object_prototype_members)"

subsection \<open>Whole numbers as text\<close>

definition digit_char :: "int \<Rightarrow> char" where
  "digit_char n = ''0123456789'' ! nat (n mod 10)"

text \<open>The decimal digits of a number that is not negative.\<close>

function digits_of :: "int \<Rightarrow> string" where
  "digits_of n =
     (if n < 10 then [digit_char n] else digits_of (n div 10) @ [digit_char (n mod 10)])"
  by pat_completeness auto
termination
  by (relation "measure nat") auto

declare digits_of.simps [simp del]

text \<open>The text of a whole number: an index or a count in a template literal.\<close>

definition num_str :: "int \<Rightarrow> string" where
  "num_str i = (if i < 0 then CHR ''-'' # digits_of (- i) else digits_of i)"

subsection \<open>Numbers\<close>

text \<open>
  A number is NaN, an infinity, or a finite binary64 value. \<open>Finite m e\<close> is the value
  \<open>m * 2 ^ e\<close>; one value has several such forms, and what the functions below answer
  depends on the value alone. Every finite binary64 value has a form \<open>Finite m e\<close> with
  \<open>\<bar>m\<bar> < 2 ^ 53\<close> and \<open>- 1074 \<le> e \<le> 971\<close>. Minus zero is written as zero: it is
  falsy as zero is, and it is printed, compared, floored and fixed to one decimal as zero
  is.
\<close>

datatype number = NaN | PosInfinity | NegInfinity | Finite int int

text \<open>A whole number as a number.\<close>

definition num_of_int :: "int \<Rightarrow> number" where
  "num_of_int n = Finite n 0"

text \<open>The value \<open>a * 2 ^ k\<close> as the fraction \<open>scale_up a k / scale_down 1 k\<close>, and the
  fraction \<open>a * 2 ^ k / b\<close> as \<open>scale_up a k / scale_down b k\<close>.\<close>

definition scale_up :: "int \<Rightarrow> int \<Rightarrow> int" where
  "scale_up a k = (if 0 \<le> k then a * 2 ^ nat k else a)"

definition scale_down :: "int \<Rightarrow> int \<Rightarrow> int" where
  "scale_down b k = (if k < 0 then b * 2 ^ nat (- k) else b)"

text \<open>The number of binary digits of a positive integer.\<close>

function bit_length :: "int \<Rightarrow> nat" where
  "bit_length n = (if n \<le> 0 then 0 else Suc (bit_length (n div 2)))"
  by pat_completeness auto
termination
  by (relation "measure nat") auto

declare bit_length.simps [simp del]

text \<open>The integer nearest to \<open>a / b\<close>, the even one of two that are equally near.\<close>

definition round_half_even :: "int \<Rightarrow> int \<Rightarrow> int" where
  "round_half_even a b =
     (let f = a div b; r = a mod b in
      if 2 * r < b then f
      else if b < 2 * r then f + 1
      else if even f then f else f + 1)"

text \<open>
  The binary64 value nearest to \<open>num / den * 2 ^ e\<close>, for a positive \<open>den\<close>: the result of
  an arithmetic operation whose exact result is that fraction. With \<open>k\<close> chosen so that
  \<open>2 ^ 52 \<le> \<bar>num\<bar> * 2 ^ k / den < 2 ^ 53\<close>, the result is that quotient rounded to an
  integer, a tie to the even one, times \<open>2 ^ (e - k)\<close>. The exponent does not go below
  \<open>- 1074\<close> (there the quotient has fewer digits), and a result of \<open>2 ^ 1024\<close> or more is
  an infinity.
\<close>

definition round_to_double :: "int \<Rightarrow> int \<Rightarrow> int \<Rightarrow> number" where
  "round_to_double num den e =
     (if num = 0 then Finite 0 0
      else
       (let a = \<bar>num\<bar>;
            k0 = 53 - (int (bit_length a) - int (bit_length den));
            k1 = (if scale_down den k0 * 2 ^ 53 \<le> scale_up a k0 then k0 - 1 else k0);
            k = (if e - k1 < - 1074 then e + 1074 else k1);
            m = round_half_even (scale_up a k) (scale_down den k)
        in if 971 < e - k \<or> (e - k = 971 \<and> 2 ^ 53 \<le> m)
           then (if 0 < num then PosInfinity else NegInfinity)
           else Finite (if 0 < num then m else - m) (e - k)))"

text \<open>\<open>x * c\<close> and \<open>x / c\<close> for a positive integer constant \<open>c\<close>.\<close>

definition num_times :: "number \<Rightarrow> int \<Rightarrow> number" where
  "num_times x c = (case x of Finite m e \<Rightarrow> round_to_double (m * c) 1 e | _ \<Rightarrow> x)"

definition num_over :: "number \<Rightarrow> int \<Rightarrow> number" where
  "num_over x c = (case x of Finite m e \<Rightarrow> round_to_double m c e | _ \<Rightarrow> x)"

text \<open>\<open>Math.floor(x)\<close>, and \<open>x % c\<close> for a positive integer constant \<open>c\<close>: the remainder has
  the sign of \<open>x\<close> and is exact.\<close>

definition num_floor :: "number \<Rightarrow> number" where
  "num_floor x =
     (case x of
        Finite m e \<Rightarrow> if 0 \<le> e then Finite m e else Finite (m div 2 ^ nat (- e)) 0
      | _ \<Rightarrow> x)"

definition num_rem :: "number \<Rightarrow> int \<Rightarrow> number" where
  "num_rem x c =
     (case x of
        Finite m e \<Rightarrow>
          if 0 \<le> e then Finite (sgn m * ((\<bar>m\<bar> * 2 ^ nat e) mod c)) 0
          else Finite (sgn m * (\<bar>m\<bar> mod (c * 2 ^ nat (- e)))) e
      | _ \<Rightarrow> NaN)"

text \<open>\<open>x >= c\<close>, \<open>x > c\<close> and \<open>x < c\<close> for an integer constant \<open>c\<close>; a comparison with NaN
  is false.\<close>

definition num_ge :: "number \<Rightarrow> int \<Rightarrow> bool" where
  "num_ge x c =
     (case x of
        NaN \<Rightarrow> False | PosInfinity \<Rightarrow> True | NegInfinity \<Rightarrow> False
      | Finite m e \<Rightarrow> scale_down c e \<le> scale_up m e)"

definition num_gt :: "number \<Rightarrow> int \<Rightarrow> bool" where
  "num_gt x c =
     (case x of
        NaN \<Rightarrow> False | PosInfinity \<Rightarrow> True | NegInfinity \<Rightarrow> False
      | Finite m e \<Rightarrow> scale_down c e < scale_up m e)"

definition num_lt :: "number \<Rightarrow> int \<Rightarrow> bool" where
  "num_lt x c =
     (case x of
        NaN \<Rightarrow> False | PosInfinity \<Rightarrow> False | NegInfinity \<Rightarrow> True
      | Finite m e \<Rightarrow> scale_up m e < scale_down c e)"

text \<open>A number in a truth test: zero and NaN are falsy.\<close>

definition num_truthy :: "number \<Rightarrow> bool" where
  "num_truthy x = (case x of NaN \<Rightarrow> False | Finite m e \<Rightarrow> m \<noteq> 0 | _ \<Rightarrow> True)"

subsection \<open>Numbers as text\<close>

text \<open>
  The text of a number in a template literal. For a positive finite value \<open>x\<close> the
  language takes the integers \<open>s\<close>, \<open>k\<close> and \<open>n\<close> with \<open>k\<close> digits in \<open>s\<close>, such that
  \<open>s * 10 ^ (n - k)\<close> read as a number is \<open>x\<close>, with \<open>k\<close> as small as possible, and of
  several such \<open>s\<close> the one for which the decimal is nearest to \<open>x\<close>, the even one of two. It
  writes the digits of \<open>s\<close> with the point after the first \<open>n\<close> of them, or with an exponent
  when \<open>n\<close> is above 21 or below - 5.
\<close>

text \<open>The \<open>n\<close> with \<open>10 ^ (n - 1) \<le> a / b < 10 ^ n\<close>, for positive \<open>a\<close> and \<open>b\<close>: the number of
  digits before the point, and for a value below 1 the number \<open>1 - t\<close>, where \<open>t\<close> is the
  least one with \<open>b \<le> a * 10 ^ t\<close>.\<close>

function small_exponent :: "int \<Rightarrow> int \<Rightarrow> nat \<Rightarrow> nat" where
  "small_exponent a b t =
     (if a \<le> 0 \<or> b \<le> a * 10 ^ t then t else small_exponent a b (Suc t))"
  by pat_completeness auto
termination
proof (relation "measure (\<lambda>(a, b, t). nat (b - a * 10 ^ t))", goal_cases)
  case 1
  show ?case by simp
next
  case (2 a b t)
  then have a: "0 < a" and lt: "a * 10 ^ t < b" by simp_all
  have "a * 10 ^ t < a * 10 ^ Suc t" using a by simp
  with lt show ?case by simp
qed

declare small_exponent.simps [simp del]

definition decimal_exponent :: "int \<Rightarrow> int \<Rightarrow> int" where
  "decimal_exponent a b =
     (if b \<le> a then int (length (digits_of (a div b))) else 1 - int (small_exponent a b 1))"

text \<open>\<open>same_value x m e\<close>: the number \<open>x\<close> is the finite value \<open>m * 2 ^ e\<close>.
  \<open>reads_back s j m e\<close>: the decimal \<open>s / 10 ^ j\<close>, read as a number, is \<open>m * 2 ^ e\<close>.\<close>

definition same_value :: "number \<Rightarrow> int \<Rightarrow> int \<Rightarrow> bool" where
  "same_value x m e =
     (case x of
        Finite m' e' \<Rightarrow> scale_up m' (e' - min e e') = scale_up m (e - min e e')
      | _ \<Rightarrow> False)"

definition reads_back :: "int \<Rightarrow> int \<Rightarrow> int \<Rightarrow> int \<Rightarrow> bool" where
  "reads_back s j m e =
     same_value
       (round_to_double (if 0 \<le> j then s else s * 10 ^ nat (- j))
                        (if 0 \<le> j then 10 ^ nat j else 1) 0)
       m e"

text \<open>The \<open>s\<close> of \<open>k\<close> digits for the value \<open>m * 2 ^ e\<close> with \<open>n\<close> digits before the point, when
  there is one: of the two decimals of \<open>k\<close> digits around the value, the one that reads
  back as the value, and the nearer one (or the even one) when both do.\<close>

definition digits_for :: "int \<Rightarrow> int \<Rightarrow> int \<Rightarrow> int \<Rightarrow> int option" where
  "digits_for m e n k =
     (let j = k - n;
          num = (if 0 \<le> j then scale_up m e * 10 ^ nat j else scale_up m e);
          den = (if 0 \<le> j then scale_down 1 e else scale_down 1 e * 10 ^ nat (- j));
          lo = num div den;
          hi = lo + 1;
          lo_ok = (0 < lo \<and> reads_back lo j m e);
          hi_ok = reads_back hi j m e
      in if lo_ok \<and> hi_ok then
           (if num - lo * den < hi * den - num then Some lo
            else if hi * den - num < num - lo * den then Some hi
            else if even lo then Some lo else Some hi)
         else if lo_ok then Some lo
         else if hi_ok then Some hi
         else None)"

text \<open>The digits, their count and the position of the point. A binary64 value has such
  digits among 17 at most; for a \<open>Finite m e\<close> that is no binary64 value the first 17
  digits are taken.\<close>

definition shortest_digits :: "int \<Rightarrow> int \<Rightarrow> int \<times> int \<times> int" where
  "shortest_digits m e =
     (let n = decimal_exponent (scale_up m e) (scale_down 1 e) in
      case first_some (\<lambda>k. map_option (\<lambda>s. (s, k)) (digits_for m e n k)) [1..17] of
        Some (s, k) \<Rightarrow> if s = 10 ^ nat k then (10 ^ nat (k - 1), k, n + 1) else (s, k, n)
      | None \<Rightarrow> (scale_up m e * 10 ^ nat (17 - n) div scale_down 1 e, 17, n))"

definition digits_text :: "int \<times> int \<times> int \<Rightarrow> string" where
  "digits_text d =
     (case d of (s, k, n) \<Rightarrow>
        (let ds = digits_of s in
         if k \<le> n \<and> n \<le> 21 then ds @ replicate (nat (n - k)) (CHR ''0'')
         else if 0 < n \<and> n \<le> 21 then take (nat n) ds @ ''.'' @ drop (nat n) ds
         else if - 6 < n \<and> n \<le> 0 then ''0.'' @ replicate (nat (- n)) (CHR ''0'') @ ds
         else
          (let ex = (if 0 \<le> n - 1 then ''+'' else ''-'') @ digits_of \<bar>n - 1\<bar>
           in if k = 1 then ds @ ''e'' @ ex
              else take 1 ds @ ''.'' @ drop 1 ds @ ''e'' @ ex)))"

definition to_string :: "number \<Rightarrow> string" where
  "to_string x =
     (case x of
        NaN \<Rightarrow> ''NaN''
      | PosInfinity \<Rightarrow> ''Infinity''
      | NegInfinity \<Rightarrow> ''-Infinity''
      | Finite m e \<Rightarrow>
          if m = 0 then ''0''
          else if m < 0 then ''-'' @ digits_text (shortest_digits (- m) e)
          else digits_text (shortest_digits m e))"

text \<open>
  \<open>x.toFixed(1)\<close>: for a finite value below \<open>10 ^ 21\<close> in size, the integer \<open>n\<close> for which
  \<open>n / 10\<close> is nearest to the size of \<open>x\<close>, the larger one of two, written with a point
  before its last digit, behind a minus sign when \<open>x\<close> is negative; for any other number its
  text.
\<close>

definition toFixed1 :: "number \<Rightarrow> string" where
  "toFixed1 x =
     (case x of
        Finite m e \<Rightarrow>
          (let a = scale_up \<bar>m\<bar> e; b = scale_down 1 e in
           if 10 ^ 21 * b \<le> a then to_string x
           else
            (let n = (20 * a + b) div (2 * b)
             in (if m < 0 then ''-'' else []) @ digits_of (n div 10) @ ''.''
                  @ digits_of (n mod 10)))
      | _ \<Rightarrow> to_string x)"

text \<open>\<open>x || d\<close> on an optional string; an optional number in a truth test (an absent
  number, zero and NaN are falsy), and \<open>x || 0\<close> on an optional number.\<close>

definition str_or :: "string option \<Rightarrow> string \<Rightarrow> string" where
  "str_or x d = (case x of None \<Rightarrow> d | Some s \<Rightarrow> if s = [] then d else s)"

definition opt_truthy :: "number option \<Rightarrow> bool" where
  "opt_truthy x = (case x of None \<Rightarrow> False | Some n \<Rightarrow> num_truthy n)"

definition num_or_zero :: "number option \<Rightarrow> number" where
  "num_or_zero x =
     (case x of None \<Rightarrow> num_of_int 0 | Some n \<Rightarrow> if num_truthy n then n else num_of_int 0)"

section \<open>Data model\<close>

datatype duration_type = Time | Distance

record interval =
  i_repeat :: number
  i_duration :: number
  i_durationType :: "duration_type option"
  i_intensity :: string
  i_recovery :: "number option"
  i_recoveryIntensity :: "string option"
  i_ramp :: "(string \<times> string) option"

datatype workout_type = Run | Bike | Swim | Strength | Rest

record workout =
  w_id :: string
  w_date :: string
  w_type :: workout_type
  w_name :: string
  w_description :: string
  w_duration :: "number option"
  w_distance :: "number option"
  w_intensity :: "string option"
  w_intervals :: "interval list option"
  w_notes :: "string option"

type_synonym pace_mapping = "string \<rightharpoonup> string"

section \<open>Interval text formatter\<close>

subsection \<open>Intensity\<close>

text \<open>\<open>/^Z[1-5]$/i\<close>\<close>

definition is_zone_token :: "string \<Rightarrow> bool" where
  "is_zone_token s =
     (case s of [z, d] \<Rightarrow> (z = CHR ''Z'' \<or> z = CHR ''z'') \<and> d \<in> set ''12345'' | _ \<Rightarrow> False)"

text \<open>\<open>/^\d+:\d+/\<close>\<close>

definition has_clock_prefix :: "string \<Rightarrow> bool" where
  "has_clock_prefix s =
     (takeWhile is_digit s \<noteq> [] \<and>
      (case dropWhile is_digit s of
         c # d # _ \<Rightarrow> c = CHR '':'' \<and> is_digit d
       | _ \<Rightarrow> False))"

definition intensityMap :: "workout_type \<Rightarrow> (string \<times> string) list" where
  "intensityMap workoutType =
     [(''easy'', if workoutType = Run then ''Easy pace'' else ''Z2''),
      (''recovery'', ''Z1''),
      (''endurance'', ''Z2''),
      (''aerobic'', ''Z2''),
      (''tempo'', ''Z3''),
      (''threshold'', ''Z4''),
      (''lactate threshold'', ''Z4''),
      (''lt'', ''Z4''),
      (''vo2 max'', ''Z5''),
      (''vo2max'', ''Z5''),
      (''intervals'', ''Z5''),
      (''5k pace'', ''5K pace''),
      (''10k pace'', ''10K pace''),
      (''marathon pace'', ''Marathon pace''),
      (''half marathon pace'', ''Half Marathon pace''),
      (''ftp'', ''100%''),
      (''sweet spot'', ''88-93%'')]"

text \<open>The rules below the pace mapping: zone token, percentage, lexicon, pass-through.\<close>

definition formatIntensity_unmapped :: "string \<Rightarrow> workout_type \<Rightarrow> string" where
  "formatIntensity_unmapped intensity workoutType =
     (if is_zone_token intensity then toUpperCase intensity
      else if includes_str intensity ''%'' then intensity
      else (let normalized = trim (toLowerCase intensity)
            in case map_of (intensityMap workoutType) normalized of
                 Some v \<Rightarrow> v
               | None \<Rightarrow> intensity))"

definition formatIntensity :: "string \<Rightarrow> workout_type \<Rightarrow> pace_mapping \<Rightarrow> string" where
  "formatIntensity intensity workoutType paceMapping =
     (if intensity = [] then (if workoutType = Run then ''Easy pace'' else ''moderate'')
      else
       (let mappedValue = str_or (paceMapping intensity) [] in
        if mappedValue \<noteq> [] then
          (if (includes_str mappedValue ''/km'' \<or> includes_str mappedValue ''/mi''
                 \<or> has_clock_prefix mappedValue)
               \<and> \<not> includes_str (toLowerCase mappedValue) ''pace''
           then mappedValue @ '' Pace''
           else mappedValue)
        else formatIntensity_unmapped intensity workoutType))"

subsection \<open>Work and recovery segments\<close>

definition formatSingleInterval :: "interval \<Rightarrow> workout_type \<Rightarrow> pace_mapping \<Rightarrow> string" where
  "formatSingleInterval interval workoutType paceMapping =
     (let isDistanceBased = (i_durationType interval = Some Distance);
          durationStr =
            (if isDistanceBased then
               (if num_ge (i_duration interval) 1000
                then toFixed1 (num_over (i_duration interval) 1000) @ ''km''
                else to_string (i_duration interval) @ ''m'')
             else
               (if num_ge (i_duration interval) 60 then
                  (let minutes = num_floor (num_over (i_duration interval) 60);
                       seconds = num_rem (i_duration interval) 60
                   in if num_gt seconds 0
                      then to_string minutes @ ''m'' @ to_string seconds @ ''s''
                      else to_string minutes @ ''m'')
                else to_string (i_duration interval) @ ''s''));
          intensityStr = formatIntensity (i_intensity interval) workoutType paceMapping
      in case i_ramp interval of
           Some (rampStart, rampEnd) \<Rightarrow> durationStr @ '' Ramp '' @ rampStart @ ''-'' @ rampEnd
         | None \<Rightarrow> durationStr @ '' '' @ intensityStr)"

definition formatRecovery :: "interval \<Rightarrow> workout_type \<Rightarrow> pace_mapping \<Rightarrow> string" where
  "formatRecovery interval workoutType paceMapping =
     (case i_recovery interval of
        None \<Rightarrow> []
      | Some recovery \<Rightarrow>
        if \<not> num_truthy recovery then []
        else
         (let isDistanceBased = (i_durationType interval = Some Distance);
              recoveryStr =
                (if isDistanceBased then
                   (if num_ge recovery 1000 then toFixed1 (num_over recovery 1000) @ ''km''
                    else to_string recovery @ ''m'')
                 else
                   (if num_ge recovery 60 then
                      (let minutes = num_floor (num_over recovery 60);
                           seconds = num_rem recovery 60
                       in if num_gt seconds 0
                          then to_string minutes @ ''m'' @ to_string seconds @ ''s''
                          else to_string minutes @ ''m'')
                    else to_string recovery @ ''s''));
              recoveryIntensity = str_or (i_recoveryIntensity interval) ''Easy'';
              intensityStr = formatIntensity recoveryIntensity workoutType paceMapping
          in recoveryStr @ '' '' @ intensityStr))"

text \<open>The lines one interval adds: the repeat marker, the work step, the recovery step.\<close>

definition interval_lines :: "interval \<Rightarrow> workout_type \<Rightarrow> pace_mapping \<Rightarrow> string list" where
  "interval_lines interval workoutType paceMapping =
     (if num_gt (i_repeat interval) 1 then [to_string (i_repeat interval) @ ''x''] else [])
     @ [''- '' @ formatSingleInterval interval workoutType paceMapping]
     @ (if opt_truthy (i_recovery interval)
        then [''- '' @ formatRecovery interval workoutType paceMapping] else [])"

definition formatIntervals :: "interval list \<Rightarrow> workout_type \<Rightarrow> pace_mapping \<Rightarrow> string" where
  "formatIntervals intervals workoutType paceMapping =
     join [newline] (concat (map (\<lambda>interval. interval_lines interval workoutType paceMapping) intervals))"

subsection \<open>Warmup and cooldown phases of the description\<close>

text \<open>
  A quantity pattern \<open>(\d+)\s*(u1|u2|...)\<close>, matched without regard to case at the start
  of \<open>s\<close>, with a word boundary behind the unit when \<open>boundary\<close> is set. The matcher
  backtracks as the regular expression does: the longest run of digits first, then the
  longest run of white space, then the units in the order they are written. The result is
  the whole match, the digits and the unit.
\<close>

definition match_unit :: "string list \<Rightarrow> bool \<Rightarrow> string \<Rightarrow> string option" where
  "match_unit units boundary s =
     map_option (\<lambda>u. take (length u) s)
       (find (\<lambda>u. toLowerCase (take (length u) s) = u \<and>
                  (\<not> boundary \<or>
                   (case drop (length u) s of [] \<Rightarrow> True | c # _ \<Rightarrow> \<not> is_word_char c)))
             units)"

definition match_quantity_here ::
  "string list \<Rightarrow> bool \<Rightarrow> string \<Rightarrow> (string \<times> string \<times> string) option" where
  "match_quantity_here units boundary s =
     first_some
       (\<lambda>nd. let after_digits = drop nd s in
          first_some
            (\<lambda>ns. map_option (\<lambda>u. (take (nd + ns + length u) s, take nd s, u))
                     (match_unit units boundary (drop ns after_digits)))
            (rev [0..<Suc (length (takeWhile is_space after_digits))]))
       (rev [1..<Suc (length (takeWhile is_digit s))])"

text \<open>The first match in \<open>s\<close>, trying every start position from the left.\<close>

fun match_quantity ::
  "string list \<Rightarrow> bool \<Rightarrow> string \<Rightarrow> (string \<times> string \<times> string) option" where
  "match_quantity units boundary [] = None"
| "match_quantity units boundary (c # cs) =
     (case match_quantity_here units boundary (c # cs) of
        Some m \<Rightarrow> Some m
      | None \<Rightarrow> match_quantity units boundary cs)"

text \<open>\<open>/(\d+)\s*(min|minute|minutes|m)/i\<close> and \<open>/(\d+)\s*(km|k|miles?|m)\b/i\<close>\<close>

definition time_units :: "string list" where
  "time_units = [''min'', ''minute'', ''minutes'', ''m'']"

definition distance_units :: "string list" where
  "distance_units = [''km'', ''k'', ''miles'', ''mile'', ''m'']"

definition formatPhaseText :: "string \<Rightarrow> pace_mapping \<Rightarrow> string" where
  "formatPhaseText text paceMapping =
     (let timeMatch = match_quantity time_units False text;
          distanceMatch = match_quantity distance_units True text
      in case timeMatch of
           Some (whole, duration, unit) \<Rightarrow>
             (let intensity = str_or (Some (trim (remove_first text whole))) ''Easy''
              in ''- '' @ duration @ ''m '' @ formatIntensity intensity Run paceMapping)
         | None \<Rightarrow>
             (case distanceMatch of
                Some (whole, distance, unit0) \<Rightarrow>
                  (let unit = toLowerCase unit0;
                       distanceStr = (if includes_str unit ''k'' then distance @ ''km''
                                      else distance @ ''m'');
                       intensity = str_or (Some (trim (remove_first text whole))) ''Easy''
                   in ''- '' @ distanceStr @ '' '' @ formatIntensity intensity Run paceMapping)
              | None \<Rightarrow> ''- '' @ text))"

text \<open>
  The phase patterns \<open>/^(warmup|warm-up|warm up):?\s*(.+)/i\<close> and
  \<open>/^(cooldown|cool-down|cool down):?\s*(.+)/i\<close>; the result is the second group.
  \<open>rest_of_line\<close> is \<open>(.+)\<close>, \<open>spaces_rest\<close> is \<open>\s*(.+)\<close> giving back white space one
  character at a time, \<open>colon_spaces_rest\<close> puts the optional colon in front.
\<close>

definition rest_of_line :: "string \<Rightarrow> string option" where
  "rest_of_line r =
     (let g = takeWhile (\<lambda>c. \<not> is_line_terminator c) r in if g = [] then None else Some g)"

definition spaces_rest :: "string \<Rightarrow> string option" where
  "spaces_rest r =
     first_some (\<lambda>ns. rest_of_line (drop ns r)) (rev [0..<Suc (length (takeWhile is_space r))])"

definition colon_spaces_rest :: "string \<Rightarrow> string option" where
  "colon_spaces_rest r =
     (case r of
        c # r' \<Rightarrow>
          (if c = CHR '':'' then
             (case spaces_rest r' of Some g \<Rightarrow> Some g | None \<Rightarrow> spaces_rest r)
           else spaces_rest r)
      | [] \<Rightarrow> spaces_rest r)"

definition match_phase :: "string list \<Rightarrow> string \<Rightarrow> string option" where
  "match_phase keywords line =
     first_some
       (\<lambda>kw. if toLowerCase (take (length kw) line) = kw
              then colon_spaces_rest (drop (length kw) line) else None)
       keywords"

definition warmupPattern :: "string list" where
  "warmupPattern = [''warmup'', ''warm-up'', ''warm up'']"

definition cooldownPattern :: "string list" where
  "cooldownPattern = [''cooldown'', ''cool-down'', ''cool down'']"

record phases =
  warmup :: "string option"
  mainSet :: "string option"
  cooldown :: "string option"

text \<open>One turn of the loop over the lines: a warmup line sets the warmup and the loop
  continues; otherwise a cooldown line sets the cooldown.\<close>

definition phase_step :: "pace_mapping \<Rightarrow> phases \<Rightarrow> string \<Rightarrow> phases" where
  "phase_step paceMapping ph line =
     (case match_phase warmupPattern line of
        Some g \<Rightarrow> ph\<lparr>warmup := Some (formatPhaseText g paceMapping)\<rparr>
      | None \<Rightarrow>
          (case match_phase cooldownPattern line of
             Some g \<Rightarrow> ph\<lparr>cooldown := Some (formatPhaseText g paceMapping)\<rparr>
           | None \<Rightarrow> ph))"

definition detectWorkoutPhases :: "string \<Rightarrow> pace_mapping \<Rightarrow> phases" where
  "detectWorkoutPhases description paceMapping =
     (let lines = filter (\<lambda>l. l \<noteq> []) (map trim (split_lines description))
      in foldl (phase_step paceMapping) \<lparr>warmup = None, mainSet = None, cooldown = None\<rparr> lines)"

subsection \<open>The whole workout\<close>

text \<open>The interval made from the scalars of a workout that has no interval list: the
  distance times 1000 when there is one, else the duration (or zero) times 60.\<close>

definition synthetic_interval :: "workout \<Rightarrow> interval" where
  "synthetic_interval workout =
     \<lparr>i_repeat = num_of_int 1,
      i_duration =
        (case w_distance workout of
           Some distance \<Rightarrow>
             if num_truthy distance then num_times distance 1000
             else num_times (num_or_zero (w_duration workout)) 60
         | None \<Rightarrow> num_times (num_or_zero (w_duration workout)) 60),
      i_durationType = Some (if opt_truthy (w_distance workout) then Distance else Time),
      i_intensity = str_or (w_intensity workout) ''Easy'',
      i_recovery = None, i_recoveryIntensity = None, i_ramp = None\<rparr>"

text \<open>The sections pushed in order: warmup, main set, cooldown, each closed by an empty
  entry.\<close>

definition sections_of ::
  "phases \<Rightarrow> interval list \<Rightarrow> workout_type \<Rightarrow> pace_mapping \<Rightarrow> string list" where
  "sections_of phases intervalsToFormat workoutType paceMapping =
     (let hasWarmup = (str_or (warmup phases) [] \<noteq> []);
          hasMainSet = (str_or (mainSet phases) [] \<noteq> []);
          hasCooldown = (str_or (cooldown phases) [] \<noteq> [])
      in (if hasWarmup then [''Warmup'', str_or (warmup phases) [], []] else [])
         @ (if length intervalsToFormat > 0 then
              (if hasWarmup \<or> hasCooldown \<or> length intervalsToFormat > 1
               then [''Main Set''] else [])
              @ [formatIntervals intervalsToFormat workoutType paceMapping, []]
            else if hasMainSet then [''Main Set'', str_or (mainSet phases) [], []]
            else [])
         @ (if hasCooldown then [''Cooldown'', str_or (cooldown phases) [], []] else []))"

definition formatWorkoutForIntervalsICU :: "workout \<Rightarrow> pace_mapping \<Rightarrow> string" where
  "formatWorkoutForIntervalsICU workout paceMapping =
     (let given = (case w_intervals workout of Some xs \<Rightarrow> xs | None \<Rightarrow> [])
      in
      if given = [] \<and> \<not> (opt_truthy (w_distance workout) \<or> opt_truthy (w_duration workout))
      then w_description workout
      else
       (let intervalsToFormat = (if given = [] then [synthetic_interval workout] else given);
            phases = detectWorkoutPhases (w_description workout) paceMapping;
            sections = sections_of phases intervalsToFormat (w_type workout) paceMapping;
            formatted = trim (join [newline] sections)
        in if formatted = [] then w_description workout
           else
            (let hasAdditionalInfo =
                   (length (w_description workout) > 20
                    \<and> \<not> includes_str (w_description workout) formatted)
             in if hasAdditionalInfo then formatted else formatted)))"

section \<open>The formatter's rules as the specification words them\<close>

text \<open>
  The duration rule, for every number: a distance of 1000 or more is written in
  kilometers with one decimal place, any other one in meters; a time of 60 or more is
  written in minutes, with the leftover seconds when they are more than zero, any other
  one in seconds. The minutes, the seconds and the meters are written as the language
  prints the number.
\<close>

definition duration_form :: "duration_type option \<Rightarrow> number \<Rightarrow> string" where
  "duration_form ty v =
     (if ty = Some Distance
      then (if num_ge v 1000 then toFixed1 (num_over v 1000) @ ''km''
            else to_string v @ ''m'')
      else (if num_ge v 60
            then to_string (num_floor (num_over v 60)) @ ''m''
                 @ (if num_gt (num_rem v 60) 0 then to_string (num_rem v 60) @ ''s'' else [])
            else to_string v @ ''s''))"

text \<open>
  The same rule for a whole number, in whole units: whole meters, whole minutes with the
  whole seconds that are left, whole seconds; and the kilometers as a number of tenths,
  with a point before the last digit.
\<close>

definition meters_text :: "int \<Rightarrow> string" where
  "meters_text v = num_str v @ ''m''"

definition minutes_text :: "int \<Rightarrow> string" where
  "minutes_text v =
     num_str (v div 60) @ ''m'' @ (if v mod 60 = 0 then [] else num_str (v mod 60) @ ''s'')"

definition seconds_text :: "int \<Rightarrow> string" where
  "seconds_text v = num_str v @ ''s''"

definition tenths_text :: "int \<Rightarrow> string" where
  "tenths_text t = digits_of (t div 10) @ ''.'' @ digits_of (t mod 10)"

text \<open>
  The pace rule: a mapped value looks like a pace when it contains \<open>/km\<close> or \<open>/mi\<close> or
  begins with digits, a colon and digits; it mentions a pace when the word occurs in it
  in any letter case.
\<close>

definition occurs_in :: "string \<Rightarrow> string \<Rightarrow> bool" where
  "occurs_in p s = (\<exists>a b. s = a @ p @ b)"

definition spec_looks_like_pace :: "string \<Rightarrow> bool" where
  "spec_looks_like_pace v =
     (occurs_in ''/km'' v \<or> occurs_in ''/mi'' v \<or>
      (\<exists>ds es r. ds \<noteq> [] \<and> es \<noteq> [] \<and> list_all is_digit ds \<and> list_all is_digit es
          \<and> v = ds @ '':'' @ es @ r))"

definition spec_mentions_pace :: "string \<Rightarrow> bool" where
  "spec_mentions_pace v = occurs_in ''pace'' (toLowerCase v)"

text \<open>A phase text that was detected: it is present and starts with the list marker.\<close>

definition dashed :: "string option \<Rightarrow> bool" where
  "dashed x = (case x of None \<Rightarrow> False | Some t \<Rightarrow> startsWith t ''- '')"

text \<open>The intensity label that \<open>formatPhaseText\<close> takes out of a phase text and hands to
  \<open>formatIntensity\<close>, when it finds a time or a distance in the text; and the labels that
  the phase lines of a description hand over, in the order of the lines.\<close>

definition phase_label :: "string \<Rightarrow> string option" where
  "phase_label text =
     (case match_quantity time_units False text of
        Some (matched, duration, unit) \<Rightarrow>
          Some (str_or (Some (trim (remove_first text matched))) ''Easy'')
      | None \<Rightarrow>
          (case match_quantity distance_units True text of
             Some (matched, distance, unit) \<Rightarrow>
               Some (str_or (Some (trim (remove_first text matched))) ''Easy'')
           | None \<Rightarrow> None))"

definition phase_labels :: "string \<Rightarrow> string list" where
  "phase_labels description =
     concat (map (\<lambda>line.
                (case match_phase warmupPattern line of
                   Some g \<Rightarrow> (case phase_label g of Some l \<Rightarrow> [l] | None \<Rightarrow> [])
                 | None \<Rightarrow>
                     (case match_phase cooldownPattern line of
                        Some g \<Rightarrow> (case phase_label g of Some l \<Rightarrow> [l] | None \<Rightarrow> [])
                      | None \<Rightarrow> [])))
             (filter (\<lambda>l. l \<noteq> []) (map trim (split_lines description))))"

section \<open>Validator\<close>

text \<open>
  A candidate workout or plan may lack any field. \<open>new Date(s).getTime()\<close> is a parameter
  of the validator, \<open>None\<close> standing for NaN: what an engine answers for a string such as
  \<open>2024-02-30\<close> is its own choice, and no property below depends on it.
\<close>

record partial_workout =
  pw_id :: "string option"
  pw_date :: "string option"
  pw_type :: "string option"
  pw_name :: "string option"
  pw_description :: "string option"
  pw_duration :: "number option"
  pw_distance :: "number option"
  pw_intensity :: "string option"
  pw_intervals :: "interval list option"
  pw_notes :: "string option"

record partial_plan =
  pp_id :: "string option"
  pp_name :: "string option"
  pp_startDate :: "string option"
  pp_endDate :: "string option"
  pp_weeks :: "number option"
  pp_workouts :: "partial_workout list option"
  pp_source :: "string option"

record validation =
  valid :: bool
  errors :: "string list"

type_synonym date_parser = "string \<Rightarrow> int option"

definition isValidWorkoutType :: "string \<Rightarrow> bool" where
  "isValidWorkoutType t = (t \<in> set [''run'', ''bike'', ''swim'', ''strength'', ''rest''])"

definition isValidIntensity :: "string \<Rightarrow> bool" where
  "isValidIntensity i = (i \<in> set [''easy'', ''moderate'', ''hard'', ''race''])"

text \<open>\<open>/^\d{4}-\d{2}-\d{2}$/\<close>\<close>

definition iso8601Regex :: "string \<Rightarrow> bool" where
  "iso8601Regex s =
     (case s of
        [y1, y2, y3, y4, h1, m1, m2, h2, d1, d2] \<Rightarrow>
          list_all is_digit [y1, y2, y3, y4, m1, m2, d1, d2] \<and> h1 = CHR ''-'' \<and> h2 = CHR ''-''
      | _ \<Rightarrow> False)"

definition isValidISODate :: "date_parser \<Rightarrow> string \<Rightarrow> bool" where
  "isValidISODate parseDate dateString =
     (if \<not> iso8601Regex dateString then False else parseDate dateString \<noteq> None)"

text \<open>A string that is absent or empty is falsy.\<close>

definition missing :: "string option \<Rightarrow> bool" where
  "missing x = (str_or x [] = [])"

definition validateWorkout :: "date_parser \<Rightarrow> partial_workout \<Rightarrow> validation" where
  "validateWorkout parseDate workout =
     (let errors =
        (if missing (pw_id workout) then [''Workout ID is required''] else [])
        @ (if missing (pw_date workout) then [''Workout date is required'']
           else if \<not> isValidISODate parseDate (str_or (pw_date workout) [])
           then [''Invalid date format. Use YYYY-MM-DD''] else [])
        @ (if missing (pw_type workout) then [''Workout type is required'']
           else if \<not> isValidWorkoutType (str_or (pw_type workout) [])
           then [''Invalid workout type: '' @ str_or (pw_type workout) []] else [])
        @ (if missing (pw_name workout) then [''Workout name is required''] else [])
        @ (if missing (pw_description workout) then [''Workout description is required''] else [])
        @ (case pw_duration workout of
             Some d \<Rightarrow> if num_lt d 0 then [''Duration must be positive''] else []
           | None \<Rightarrow> [])
        @ (case pw_distance workout of
             Some d \<Rightarrow> if num_lt d 0 then [''Distance must be positive''] else []
           | None \<Rightarrow> [])
        @ (if \<not> missing (pw_intensity workout)
                \<and> \<not> isValidIntensity (str_or (pw_intensity workout) [])
           then [''Invalid intensity: '' @ str_or (pw_intensity workout) []] else [])
      in \<lparr>valid = (length errors = 0), errors = errors\<rparr>)"

text \<open>The loop over the workouts of a plan, \<open>index\<close> counting from 0: an invalid workout adds
  one entry, its messages joined behind its number.\<close>

fun workout_entries :: "date_parser \<Rightarrow> nat \<Rightarrow> partial_workout list \<Rightarrow> string list" where
  "workout_entries parseDate index [] = []"
| "workout_entries parseDate index (workout # rest) =
     (let workoutValidation = validateWorkout parseDate workout
      in (if \<not> valid workoutValidation
          then [''Workout '' @ num_str (int index + 1) @ '': ''
                  @ join '', '' (errors workoutValidation)]
          else [])
         @ workout_entries parseDate (Suc index) rest)"

definition validateTrainingPlan :: "date_parser \<Rightarrow> partial_plan \<Rightarrow> validation" where
  "validateTrainingPlan parseDate plan =
     (let startDate = str_or (pp_startDate plan) [];
          endDate = str_or (pp_endDate plan) [];
          errors =
            (if missing (pp_id plan) then [''Plan ID is required''] else [])
            @ (if missing (pp_name plan) then [''Plan name is required''] else [])
            @ (if missing (pp_startDate plan) then [''Start date is required'']
               else if \<not> isValidISODate parseDate startDate
               then [''Invalid start date format''] else [])
            @ (if missing (pp_endDate plan) then [''End date is required'']
               else if \<not> isValidISODate parseDate endDate
               then [''Invalid end date format''] else [])
            @ (case pp_workouts plan of
                 None \<Rightarrow> [''Workouts array is required'']
               | Some ws \<Rightarrow> if length ws = 0 then [''Plan must have at least one workout''] else [])
            @ (if \<not> missing (pp_startDate plan) \<and> \<not> missing (pp_endDate plan)
                    \<and> isValidISODate parseDate startDate \<and> isValidISODate parseDate endDate
               then (case (parseDate startDate, parseDate endDate) of
                       (Some start, Some end) \<Rightarrow>
                         if end \<le> start then [''End date must be after start date''] else []
                     | _ \<Rightarrow> [])
               else [])
            @ (case pp_workouts plan of
                 None \<Rightarrow> []
               | Some ws \<Rightarrow> workout_entries parseDate 0 ws)
      in \<lparr>valid = (length errors = 0), errors = errors\<rparr>)"

text \<open>
  A date parser for the examples: a date-only string is midnight UTC of that day, in
  milliseconds since the epoch; a month or day out of range is no date.
\<close>

definition digits_value :: "string \<Rightarrow> int" where
  "digits_value s = foldl (\<lambda>acc c. 10 * acc + int (of_char c - 48)) 0 s"

definition days_in_month :: "int \<Rightarrow> int \<Rightarrow> int" where
  "days_in_month y m =
     (if m = 2 then (if y mod 4 = 0 \<and> (y mod 100 \<noteq> 0 \<or> y mod 400 = 0) then 29 else 28)
      else if m \<in> set [4, 6, 9, 11] then 30 else 31)"

definition days_from_civil :: "int \<Rightarrow> int \<Rightarrow> int \<Rightarrow> int" where
  "days_from_civil y m d =
     (let y' = (if m \<le> 2 then y - 1 else y);
          era = y' div 400;
          yoe = y' - era * 400;
          doy = (153 * (if m > 2 then m - 3 else m + 9) + 2) div 5 + d - 1;
          doe = yoe * 365 + yoe div 4 - yoe div 100 + doy
      in era * 146097 + doe - 719468)"

definition utc_date_parse :: date_parser where
  "utc_date_parse s =
     (if iso8601Regex s then
        (let y = digits_value (take 4 s);
             m = digits_value (take 2 (drop 5 s));
             d = digits_value (take 2 (drop 8 s))
         in if 1 \<le> m \<and> m \<le> 12 \<and> 1 \<le> d \<and> d \<le> days_in_month y m
            then Some (days_from_civil y m d * 86400000) else None)
      else None)"

text \<open>
  The rules of the validator as a table, in validation order: each row is a rule, with
  whether the candidate violates it and the message of the rule.
\<close>

text \<open>Both dates are given and valid, and the end is not after the start.\<close>

definition ends_before_start :: "date_parser \<Rightarrow> string option \<Rightarrow> string option \<Rightarrow> bool" where
  "ends_before_start parseDate startDate endDate =
     (case (startDate, endDate) of
        (Some s, Some e) \<Rightarrow>
          isValidISODate parseDate s \<and> isValidISODate parseDate e
          \<and> (case (parseDate s, parseDate e) of
                 (Some start, Some end) \<Rightarrow> end \<le> start
               | _ \<Rightarrow> False)
      | _ \<Rightarrow> False)"

definition workout_rules :: "date_parser \<Rightarrow> partial_workout \<Rightarrow> (bool \<times> string) list" where
  "workout_rules parseDate w =
     [(missing (pw_id w), ''Workout ID is required''),
      (missing (pw_date w), ''Workout date is required''),
      (\<not> missing (pw_date w) \<and> \<not> isValidISODate parseDate (str_or (pw_date w) []),
         ''Invalid date format. Use YYYY-MM-DD''),
      (missing (pw_type w), ''Workout type is required''),
      (\<not> missing (pw_type w) \<and> \<not> isValidWorkoutType (str_or (pw_type w) []),
         ''Invalid workout type: '' @ str_or (pw_type w) []),
      (missing (pw_name w), ''Workout name is required''),
      (missing (pw_description w), ''Workout description is required''),
      ((case pw_duration w of Some d \<Rightarrow> num_lt d 0 | None \<Rightarrow> False),
         ''Duration must be positive''),
      ((case pw_distance w of Some d \<Rightarrow> num_lt d 0 | None \<Rightarrow> False),
         ''Distance must be positive''),
      (\<not> missing (pw_intensity w) \<and> \<not> isValidIntensity (str_or (pw_intensity w) []),
         ''Invalid intensity: '' @ str_or (pw_intensity w) [])]"

definition plan_rules :: "date_parser \<Rightarrow> partial_plan \<Rightarrow> (bool \<times> string) list" where
  "plan_rules parseDate p =
     [(missing (pp_id p), ''Plan ID is required''),
      (missing (pp_name p), ''Plan name is required''),
      (missing (pp_startDate p), ''Start date is required''),
      (\<not> missing (pp_startDate p) \<and> \<not> isValidISODate parseDate (str_or (pp_startDate p) []),
         ''Invalid start date format''),
      (missing (pp_endDate p), ''End date is required''),
      (\<not> missing (pp_endDate p) \<and> \<not> isValidISODate parseDate (str_or (pp_endDate p) []),
         ''Invalid end date format''),
      (pp_workouts p = None, ''Workouts array is required''),
      (pp_workouts p = Some [], ''Plan must have at least one workout''),
      (ends_before_start parseDate (pp_startDate p) (pp_endDate p),
         ''End date must be after start date'')]"

definition violated :: "(bool \<times> string) list \<Rightarrow> string list" where
  "violated rules = map snd (filter fst rules)"

definition workouts_of :: "partial_plan \<Rightarrow> partial_workout list" where
  "workouts_of p = (case pp_workouts p of None \<Rightarrow> [] | Some ws \<Rightarrow> ws)"

text \<open>The entry of the workout at position \<open>i\<close> (from 0) in the error list of a plan.\<close>

definition workout_entry :: "date_parser \<Rightarrow> nat \<Rightarrow> partial_workout \<Rightarrow> string list" where
  "workout_entry parseDate i w =
     (if violated (workout_rules parseDate w) = [] then []
      else [''Workout '' @ num_str (int i + 1) @ '': ''
              @ join '', '' (violated (workout_rules parseDate w))])"

section \<open>Upload orchestrator\<close>

record training_plan =
  tp_id :: string
  tp_name :: string
  tp_startDate :: string
  tp_endDate :: string
  tp_weeks :: "number option"
  tp_workouts :: "workout list"
  tp_source :: "string option"

record icu_config =
  apiKey :: string
  athleteId :: "string option"

record icu_event =
  ev_external_id :: string
  ev_category :: string
  ev_start_date_local :: string
  ev_name :: string
  ev_description :: string
  ev_type :: "string option"
  ev_moving_time :: "number option"
  ev_distance :: "number option"

record upload_response =
  ur_id :: number
  ur_athlete_id :: number
  ur_start_date_local :: string
  ur_name :: string

datatype 'a api_result = Success 'a | Failure string

text \<open>
  What one request to the remote service comes to: the request or the reading of its body
  throws (with the message of the error, when the thrown value is one), the service
  answers with an error status (with the message field of the body, which may be absent),
  or it answers with the created event. The service is a parameter: it answers the request
  with a given number for a given athlete, key and event.
\<close>

datatype http_reply =
    Thrown "string option"
  | ErrorStatus "string option"
  | Created upload_response

type_synonym remote = "nat \<Rightarrow> string \<times> string \<times> icu_event \<Rightarrow> http_reply"

definition categoryMap :: "workout_type \<Rightarrow> string" where
  "categoryMap t =
     (case t of Run \<Rightarrow> ''Run'' | Bike \<Rightarrow> ''Ride'' | Swim \<Rightarrow> ''Swim''
      | Strength \<Rightarrow> ''WeightTraining'' | Rest \<Rightarrow> ''Run'')"

definition formatWorkoutForAPI :: "workout \<Rightarrow> icu_event" where
  "formatWorkoutForAPI workout =
     (let formattedDate =
            (if includes_str (w_date workout) ''T'' then w_date workout
             else w_date workout @ ''T00:00:00'');
          isRestDay = (w_type workout = Rest);
          formattedDescription =
            (case w_intervals workout of
               Some (i # is) \<Rightarrow> formatWorkoutForIntervalsICU workout Map.empty
             | _ \<Rightarrow> w_description workout)
      in \<lparr>ev_external_id = w_id workout,
          ev_category = (if isRestDay then ''NOTE'' else ''WORKOUT''),
          ev_start_date_local = formattedDate,
          ev_name = w_name workout,
          ev_description = formattedDescription,
          ev_type = (if isRestDay then None else Some (categoryMap (w_type workout))),
          ev_moving_time =
            (case w_duration workout of
               Some duration \<Rightarrow>
                 if num_truthy duration then Some (num_times duration 60) else None
             | None \<Rightarrow> None),
          ev_distance =
            (case w_distance workout of
               Some distance \<Rightarrow>
                 if num_truthy distance then Some (num_times distance 1000) else None
             | None \<Rightarrow> None)\<rparr>)"

definition uploadSingleWorkout ::
  "remote \<Rightarrow> nat \<Rightarrow> workout \<Rightarrow> icu_config \<Rightarrow> upload_response api_result" where
  "uploadSingleWorkout service n workout config =
     (let athlete = str_or (athleteId config) ''0'';
          event = formatWorkoutForAPI workout
      in case service n (athlete, apiKey config, event) of
           Thrown e \<Rightarrow>
             Failure (case e of Some message \<Rightarrow> message | None \<Rightarrow> ''Unknown error occurred'')
         | ErrorStatus message \<Rightarrow>
             Failure (str_or message (''Failed to upload workout: '' @ w_name workout))
         | Created data \<Rightarrow> Success data)"

record upload_results =
  succeeded :: nat
  failed :: nat
  upload_errors :: "string list"

text \<open>What the batch does besides counting: the calls of the progress callback and the
  waits between two requests, in order.\<close>

datatype effect = Progress nat nat | Wait nat

text \<open>The loop from index \<open>i\<close> on, over the workouts that are left.\<close>

fun upload_loop ::
  "remote \<Rightarrow> icu_config \<Rightarrow> bool \<Rightarrow> nat \<Rightarrow> nat \<Rightarrow> workout list
     \<Rightarrow> upload_results \<times> effect list \<Rightarrow> upload_results \<times> effect list" where
  "upload_loop service config onProgress totalCount i [] state = state"
| "upload_loop service config onProgress totalCount i (workout # rest) (results, log) =
     (let result = uploadSingleWorkout service i workout config;
          results' =
            (case result of
               Success data \<Rightarrow> results\<lparr>succeeded := succeeded results + 1\<rparr>
             | Failure error \<Rightarrow>
                 results\<lparr>failed := failed results + 1,
                   upload_errors := upload_errors results
                     @ [w_name workout @ '' ('' @ w_date workout @ ''): '' @ error]\<rparr>);
          log' = log @ (if onProgress then [Progress (i + 1) totalCount] else [])
                     @ (if rest \<noteq> [] then [Wait 200] else [])
      in upload_loop service config onProgress totalCount (i + 1) rest (results', log'))"

definition uploadWorkoutPlan ::
  "remote \<Rightarrow> training_plan \<Rightarrow> icu_config \<Rightarrow> bool
     \<Rightarrow> upload_results api_result \<times> effect list" where
  "uploadWorkoutPlan service plan config onProgress =
     (let totalCount = length (tp_workouts plan);
          (results, log) =
            upload_loop service config onProgress totalCount 0 (tp_workouts plan)
              (\<lparr>succeeded = 0, failed = 0, upload_errors = []\<rparr>, [])
      in if failed results > 0
         then (Failure (''Uploaded '' @ num_str (int (succeeded results)) @ '' workouts, ''
                 @ num_str (int (failed results)) @ '' failed. Errors: ''
                 @ join ''; '' (upload_errors results)), log)
         else (Success results, log))"

text \<open>
  The batch as the specification words it: every workout is attempted once, in order, with
  its index; a failed attempt gives the line \<open>name (date): message\<close>.
\<close>

definition attempts ::
  "remote \<Rightarrow> icu_config \<Rightarrow> workout list \<Rightarrow> (workout \<times> upload_response api_result) list" where
  "attempts service config ws =
     map (\<lambda>(i, w). (w, uploadSingleWorkout service i w config)) (enumerate 0 ws)"

definition is_failure :: "'a api_result \<Rightarrow> bool" where
  "is_failure r = (case r of Failure e \<Rightarrow> True | Success x \<Rightarrow> False)"

definition failure_count :: "(workout \<times> upload_response api_result) list \<Rightarrow> nat" where
  "failure_count as = length (filter (\<lambda>(w, r). is_failure r) as)"

definition failure_lines :: "(workout \<times> upload_response api_result) list \<Rightarrow> string list" where
  "failure_lines as =
     concat (map (\<lambda>(w, r). case r of
                    Failure message \<Rightarrow> [w_name w @ '' ('' @ w_date w @ ''): '' @ message]
                  | Success x \<Rightarrow> []) as)"

section \<open>Direct JSON import\<close>

text \<open>
  A parsed JSON value. The keys of an object are its own properties, each once. The
  identifiers of the imported plan and of its workouts come from the clock and a random
  source: they are parameters of the import, as the date parser is.
\<close>

datatype json =
    JNull
  | JBool bool
  | JNum number
  | JStr string
  | JArr "json list"
  | JObj "(string \<times> json) list"

definition truthy :: "json \<Rightarrow> bool" where
  "truthy j =
     (case j of JNull \<Rightarrow> False | JBool b \<Rightarrow> b | JNum n \<Rightarrow> num_truthy n | JStr s \<Rightarrow> s \<noteq> []
      | JArr xs \<Rightarrow> True | JObj fs \<Rightarrow> True)"

text \<open>The properties read from a value that passed \<open>typeof x === 'object'\<close> and is not
  null: those of an object; an array has none of the names the import reads.\<close>

definition properties :: "json \<Rightarrow> (string \<rightharpoonup> json) option" where
  "properties j = (case j of JObj fs \<Rightarrow> Some (map_of fs) | JArr xs \<Rightarrow> Some Map.empty | _ \<Rightarrow> None)"

text \<open>\<open>!x || typeof x !== 'string'\<close> fails exactly for a string that is not empty.\<close>

definition string_field :: "(string \<rightharpoonup> json) \<Rightarrow> string \<Rightarrow> string option" where
  "string_field obj k =
     (case obj k of Some (JStr s) \<Rightarrow> if s = [] then None else Some s | _ \<Rightarrow> None)"

definition workout_type_of :: "string \<Rightarrow> workout_type option" where
  "workout_type_of t =
     map_of [(''run'', Run), (''bike'', Bike), (''swim'', Swim), (''strength'', Strength),
             (''rest'', Rest)] t"

text \<open>A workout as the import hands it on: the date, type and name were checked, the other
  fields are passed as they came (\<open>None\<close> is undefined).\<close>

record imported_workout =
  iw_id :: string
  iw_date :: string
  iw_type :: workout_type
  iw_name :: string
  iw_description :: json
  iw_duration :: "json option"
  iw_distance :: "json option"
  iw_intensity :: "json option"
  iw_intervals :: "json option"
  iw_notes :: "json option"

record imported_plan =
  ip_id :: string
  ip_name :: string
  ip_startDate :: string
  ip_endDate :: string
  ip_weeks :: "int option"
  ip_workouts :: "imported_workout list"
  ip_source :: string

definition validTypes :: "string list" where
  "validTypes = [''run'', ''bike'', ''swim'', ''strength'', ''rest'']"

definition validIntensities :: "string list" where
  "validIntensities = [''easy'', ''moderate'', ''hard'', ''race'']"

text \<open>The fields of a workout that passed the checks; the identifier is filled in by the
  caller.\<close>

definition checked_workout ::
  "(string \<rightharpoonup> json) \<Rightarrow> string \<Rightarrow> workout_type \<Rightarrow> string \<Rightarrow> imported_workout" where
  "checked_workout w date workoutType name =
     \<lparr>iw_id = [], iw_date = date, iw_type = workoutType, iw_name = name,
      iw_description =
        (case w ''description'' of Some d \<Rightarrow> if truthy d then d else JStr [] | None \<Rightarrow> JStr []),
      iw_duration = w ''duration'', iw_distance = w ''distance'',
      iw_intensity = w ''intensity'', iw_intervals = w ''intervals'',
      iw_notes = w ''notes''\<rparr>"

text \<open>\<open>validateWorkout\<close> of the JSON parser.\<close>

definition validateWorkout_json :: "json \<Rightarrow> nat \<Rightarrow> string + imported_workout" where
  "validateWorkout_json workout index =
     (let at = ''Workout at index '' @ num_str (int index) in
      case properties workout of
        None \<Rightarrow> Inl (at @ '' is not an object'')
      | Some w \<Rightarrow>
        (case string_field w ''date'' of
           None \<Rightarrow> Inl (at @ '' is missing a valid 'date' field (expected YYYY-MM-DD format)'')
         | Some date \<Rightarrow>
           if \<not> iso8601Regex date
           then Inl (at @ '' has invalid date format: '' @ date @ ''. Expected YYYY-MM-DD'')
           else
            (case string_field w ''type'' of
               None \<Rightarrow> Inl (at @ '' is missing a valid 'type' field'')
             | Some type \<Rightarrow>
               (case workout_type_of type of
                  None \<Rightarrow> Inl (at @ '' has invalid type: '' @ type @ ''. Expected one of: ''
                                 @ join '', '' validTypes)
                | Some workoutType \<Rightarrow>
                  (case string_field w ''name'' of
                     None \<Rightarrow> Inl (at @ '' is missing a valid 'name' field'')
                   | Some name \<Rightarrow>
                     (case string_field w ''intensity'' of
                        Some intensity \<Rightarrow>
                          if intensity \<notin> set validIntensities
                          then Inl (at @ '' has invalid intensity: '' @ intensity
                                      @ ''. Expected one of: '' @ join '', '' validIntensities)
                          else Inr (checked_workout w date workoutType name)
                      | None \<Rightarrow> Inr (checked_workout w date workoutType name)))))))"

text \<open>\<open>calculateWeeks\<close>: the days between the two dates, rounded up, in weeks rounded up; NaN
  when a date does not parse.\<close>

definition ceil_div :: "int \<Rightarrow> int \<Rightarrow> int" where
  "ceil_div a b = - ((- a) div b)"

definition calculateWeeks :: "date_parser \<Rightarrow> string \<Rightarrow> string \<Rightarrow> int option" where
  "calculateWeeks parseDate startDate endDate =
     (case (parseDate startDate, parseDate endDate) of
        (Some start, Some end) \<Rightarrow>
          (let diffTime = \<bar>end - start\<bar>;
               diffDays = ceil_div diffTime (1000 * 60 * 60 * 24)
           in Some (ceil_div diffDays 7))
      | _ \<Rightarrow> None)"

text \<open>The loop over the workouts array: the first invalid workout ends the import.\<close>

fun validate_workouts ::
  "(nat \<Rightarrow> string) \<Rightarrow> nat \<Rightarrow> json list \<Rightarrow> string + imported_workout list" where
  "validate_workouts workoutId i [] = Inr []"
| "validate_workouts workoutId i (x # xs) =
     (case validateWorkout_json x i of
        Inl error \<Rightarrow> Inl error
      | Inr workout \<Rightarrow>
          (case validate_workouts workoutId (Suc i) xs of
             Inl error \<Rightarrow> Inl error
           | Inr rest \<Rightarrow> Inr (workout\<lparr>iw_id := workoutId i\<rparr> # rest)))"

definition validateTrainingPlanJSON ::
  "(nat \<Rightarrow> string) \<Rightarrow> string \<Rightarrow> date_parser \<Rightarrow> json \<Rightarrow> string + imported_plan" where
  "validateTrainingPlanJSON workoutId planId parseDate data =
     (case properties data of
        None \<Rightarrow> Inl ''Invalid JSON: expected an object''
      | Some obj \<Rightarrow>
        (case string_field obj ''name'' of
           None \<Rightarrow> Inl ''Missing required field: 'name' (string)''
         | Some name \<Rightarrow>
           (case string_field obj ''startDate'' of
              None \<Rightarrow> Inl ''Missing required field: 'startDate' (YYYY-MM-DD format)''
            | Some startDate \<Rightarrow>
              (case string_field obj ''endDate'' of
                 None \<Rightarrow> Inl ''Missing required field: 'endDate' (YYYY-MM-DD format)''
               | Some endDate \<Rightarrow>
                 if \<not> iso8601Regex startDate
                 then Inl (''Invalid startDate format: '' @ startDate @ ''. Expected YYYY-MM-DD'')
                 else if \<not> iso8601Regex endDate
                 then Inl (''Invalid endDate format: '' @ endDate @ ''. Expected YYYY-MM-DD'')
                 else
                  (case obj ''workouts'' of
                     Some (JArr workouts) \<Rightarrow>
                       if length workouts = 0 then Inl ''Workouts array is empty''
                       else
                        (case validate_workouts workoutId 0 workouts of
                           Inl error \<Rightarrow> Inl error
                         | Inr validatedWorkouts \<Rightarrow>
                             Inr \<lparr>ip_id = planId, ip_name = name, ip_startDate = startDate,
                                  ip_endDate = endDate,
                                  ip_weeks = calculateWeeks parseDate startDate endDate,
                                  ip_workouts = validatedWorkouts,
                                  ip_source = ''json-import''\<rparr>)
                   | _ \<Rightarrow> Inl ''Missing required field: 'workouts' (array)'')))))"

text \<open>A file as the import sees it: its name, type and size, and what reading it as JSON
  comes to.\<close>

datatype file_content = Unreadable | NotJSON | Parsed json

record json_file =
  f_name :: string
  f_type :: string
  f_size :: int
  f_content :: file_content

definition endsWith :: "string \<Rightarrow> string \<Rightarrow> bool" where
  "endsWith s p = (length p \<le> length s \<and> drop (length s - length p) s = p)"

definition validateJSONFile :: "json_file \<Rightarrow> string option" where
  "validateJSONFile file =
     (if \<not> endsWith (f_name file) ''.json'' \<and> f_type file \<noteq> ''application/json''
      then Some ''File must be a JSON file''
      else if f_size file > 5 * 1024 * 1024 then Some ''JSON file must be less than 5MB''
      else None)"

definition processJSONFile ::
  "(nat \<Rightarrow> string) \<Rightarrow> string \<Rightarrow> date_parser \<Rightarrow> json_file \<Rightarrow> imported_plan api_result" where
  "processJSONFile workoutId planId parseDate file =
     (case validateJSONFile file of
        Some error \<Rightarrow> Failure error
      | None \<Rightarrow>
        (case f_content file of
           Unreadable \<Rightarrow> Failure ''Failed to read file''
         | NotJSON \<Rightarrow> Failure ''Failed to parse JSON file. Please ensure it is valid JSON.''
         | Parsed data \<Rightarrow>
           (case validateTrainingPlanJSON workoutId planId parseDate data of
              Inl error \<Rightarrow> Failure error
            | Inr plan \<Rightarrow> Success (plan\<lparr>ip_source := f_name file\<rparr>))))"

text \<open>What the import asks of a workout entry and of a plan, as the specification lists
  the format of the file.\<close>

definition importable_workout :: "json \<Rightarrow> bool" where
  "importable_workout j =
     (\<exists>w date type name. properties j = Some w
        \<and> string_field w ''date'' = Some date \<and> iso8601Regex date
        \<and> string_field w ''type'' = Some type \<and> type \<in> set validTypes
        \<and> string_field w ''name'' = Some name
        \<and> (\<forall>i. string_field w ''intensity'' = Some i \<longrightarrow> i \<in> set validIntensities))"

definition importable_plan :: "json \<Rightarrow> string \<Rightarrow> string \<Rightarrow> bool" where
  "importable_plan j startDate endDate =
     (\<exists>obj name workouts. properties j = Some obj
        \<and> string_field obj ''name'' = Some name
        \<and> string_field obj ''startDate'' = Some startDate \<and> iso8601Regex startDate
        \<and> string_field obj ''endDate'' = Some endDate \<and> iso8601Regex endDate
        \<and> obj ''workouts'' = Some (JArr workouts) \<and> workouts \<noteq> []
        \<and> list_all importable_workout workouts)"

section \<open>Example inputs\<close>

definition example_interval :: interval where
  "example_interval =
     \<lparr>i_repeat = num_of_int 5, i_duration = num_of_int 1000, i_durationType = Some Distance,
      i_intensity = ''5K pace'', i_recovery = Some (num_of_int 200),
      i_recoveryIntensity = Some ''Easy'', i_ramp = None\<rparr>"

text \<open>Two intervals with halves: 999.5 meters with a recovery of 1500.5 meters, and 90.5
  seconds with a recovery of 59.5 seconds.\<close>

definition half_meter_interval :: interval where
  "half_meter_interval =
     \<lparr>i_repeat = num_of_int 1, i_duration = Finite 1999 (- 1), i_durationType = Some Distance,
      i_intensity = ''Z2'', i_recovery = Some (Finite 3001 (- 1)),
      i_recoveryIntensity = None, i_ramp = None\<rparr>"

definition half_second_interval :: interval where
  "half_second_interval =
     \<lparr>i_repeat = num_of_int 1, i_duration = Finite 181 (- 1), i_durationType = Some Time,
      i_intensity = ''Z2'', i_recovery = Some (Finite 119 (- 1)),
      i_recoveryIntensity = None, i_ramp = None\<rparr>"

definition pace_of_tempo :: pace_mapping where
  "pace_of_tempo = [''Tempo'' \<mapsto> ''4:30/km'']"

definition cleared_mapping :: pace_mapping where
  "cleared_mapping = [''tempo'' \<mapsto> [], [] \<mapsto> ''4:30/km'']"

definition easy_run :: workout where
  "easy_run =
     \<lparr>w_id = ''w1'', w_date = ''2024-05-01'', w_type = Run, w_name = ''Easy run'',
      w_description = [], w_duration = Some (num_of_int 30), w_distance = Some (num_of_int 5),
      w_intensity = Some ''easy'', w_intervals = None, w_notes = None\<rparr>"

definition interval_session :: "workout_type \<Rightarrow> workout" where
  "interval_session t =
     \<lparr>w_id = ''w2'', w_date = ''2024-05-02'', w_type = t, w_name = ''5 x 1 km'',
      w_description = ''Warmup: 10 minutes easy'' @ [newline] @ ''Cooldown: 5 minutes easy'',
      w_duration = None, w_distance = None, w_intensity = None,
      w_intervals = Some [example_interval], w_notes = None\<rparr>"

definition nameless_workout :: partial_workout where
  "nameless_workout =
     \<lparr>pw_id = Some ''w1'', pw_date = Some ''2024-05-01'', pw_type = Some ''run'',
      pw_name = None, pw_description = None, pw_duration = Some (num_of_int 30),
      pw_distance = None,
      pw_intensity = Some ''easy'', pw_intervals = None, pw_notes = None\<rparr>"

definition one_day_plan :: partial_plan where
  "one_day_plan =
     \<lparr>pp_id = Some ''p1'', pp_name = Some ''Spring'', pp_startDate = Some ''2024-05-01'',
      pp_endDate = Some ''2024-05-01'', pp_weeks = Some (num_of_int 0),
      pp_workouts = Some [nameless_workout], pp_source = None\<rparr>"

definition described_run :: workout where
  "described_run = easy_run\<lparr>w_description := ''Easy 5k along the river''\<rparr>"

definition three_workouts :: training_plan where
  "three_workouts =
     \<lparr>tp_id = ''p1'', tp_name = ''Spring'', tp_startDate = ''2024-05-01'',
      tp_endDate = ''2024-05-03'', tp_weeks = Some (num_of_int 1),
      tp_workouts = [easy_run, interval_session Run, described_run], tp_source = None\<rparr>"

definition key_only :: icu_config where
  "key_only = \<lparr>apiKey = ''secret'', athleteId = None\<rparr>"

definition created_event :: upload_response where
  "created_event = \<lparr>ur_id = num_of_int 7, ur_athlete_id = num_of_int 1, ur_start_date_local = ''2024-05-01T00:00:00'',
     ur_name = ''ok''\<rparr>"

text \<open>A service that refuses the second request and loses the third.\<close>

definition flaky_service :: remote where
  "flaky_service n request =
     (if n = 1 then ErrorStatus (Some ''Bad request'')
      else if n = 2 then Thrown None
      else Created created_event)"

definition steady_service :: remote where
  "steady_service n request = Created created_event"

definition backwards_plan :: json where
  "backwards_plan =
     JObj [(''name'', JStr ''Spring''),
           (''startDate'', JStr ''2024-05-10''),
           (''endDate'', JStr ''2024-05-01''),
           (''workouts'',
              JArr [JObj [(''date'', JStr ''2024-05-02''), (''type'', JStr ''run''),
                          (''name'', JStr ''Easy run''), (''distance'', JNum (num_of_int 5))]])]"

text \<open>A plan whose workouts give an empty intensity and an intensity that is no text.\<close>

definition unchecked_intensities :: json where
  "unchecked_intensities =
     JObj [(''name'', JStr ''Spring''),
           (''startDate'', JStr ''2024-05-01''),
           (''endDate'', JStr ''2024-05-10''),
           (''workouts'',
              JArr [JObj [(''date'', JStr ''2024-05-02''), (''type'', JStr ''run''),
                          (''name'', JStr ''Easy run''), (''intensity'', JStr [])],
                    JObj [(''date'', JStr ''2024-05-03''), (''type'', JStr ''bike''),
                          (''name'', JStr ''Ride''), (''intensity'', JNum (num_of_int 7))]])]"

definition backwards_file :: json_file where
  "backwards_file =
     \<lparr>f_name = ''spring.json'', f_type = ''application/json'', f_size = 300,
      f_content = Parsed backwards_plan\<rparr>"

definition counting_ids :: "nat \<Rightarrow> string" where
  "counting_ids i = ''workout_'' @ num_str (int i)"

definition backwards_import :: imported_plan where
  "backwards_import =
     \<lparr>ip_id = ''plan_1'', ip_name = ''Spring'', ip_startDate = ''2024-05-10'',
      ip_endDate = ''2024-05-01'', ip_weeks = Some 2,
      ip_workouts =
        [\<lparr>iw_id = ''workout_0'', iw_date = ''2024-05-02'', iw_type = Run,
          iw_name = ''Easy run'', iw_description = JStr [], iw_duration = None,
          iw_distance = Some (JNum (num_of_int 5)), iw_intensity = None, iw_intervals = None,
          iw_notes = None\<rparr>],
      ip_source = ''json-import''\<rparr>"

section \<open>Properties of the formatter\<close>

subsection \<open>Duration text\<close>

lemma digit_table: "\<forall>k \<in> set [0..<10]. is_digit (''0123456789'' ! k)"
  by code_simp

lemma digit_char_is_digit: "is_digit (digit_char n)"
proof -
  have "nat (n mod 10) \<in> set [0..<10]" by simp
  with digit_table show ?thesis unfolding digit_char_def by blast
qed

lemma digits_of_digits: "list_all is_digit (digits_of n)"
proof (induction n rule: digits_of.induct)
  case (1 n)
  show ?case
  proof (cases "n < 10")
    case True
    then show ?thesis by (subst digits_of.simps) (simp add: digit_char_is_digit)
  next
    case False
    with 1 show ?thesis by (subst digits_of.simps) (simp add: digit_char_is_digit)
  qed
qed

lemma letters_not_digits:
  "\<not> is_digit (CHR ''k'')" "\<not> is_digit (CHR ''m'')" "\<not> is_digit (CHR ''s'')"
  "\<not> is_digit (CHR ''-'')" "\<not> is_digit (CHR ''.'')" "\<not> is_digit (CHR '':'')"
  by (simp_all add: is_digit_def)

lemma not_in_digits_of: "\<not> is_digit c \<Longrightarrow> c \<notin> set (digits_of n)"
  using digits_of_digits [of n] by (auto simp: list_all_iff)

lemma not_in_num_str: "\<not> is_digit c \<Longrightarrow> c \<noteq> CHR ''-'' \<Longrightarrow> c \<notin> set (num_str i)"
  by (simp add: num_str_def not_in_digits_of)

lemma not_in_digits_text:
  assumes "\<not> is_digit c" and "c \<notin> set ''.e+-''"
  shows "c \<notin> set (digits_text d)"
proof -
  obtain s k n where d: "d = (s, k, n)" by (cases d)
  have t: "c \<notin> set (take j (digits_of s))" for j
    using not_in_digits_of [OF assms(1), of s] by (auto dest: in_set_takeD)
  have r: "c \<notin> set (drop j (digits_of s))" for j
    using not_in_digits_of [OF assms(1), of s] by (auto dest: in_set_dropD)
  have z: "c \<noteq> CHR ''0''" using assms(1) by (auto simp: is_digit_def)
  show ?thesis
    unfolding d digits_text_def using assms(2) z t r
    by (simp add: Let_def not_in_digits_of [OF assms(1)])
qed

lemma not_in_to_string:
  assumes "\<not> is_digit c" and "c \<notin> set ''.e+-NaInfity''"
  shows "c \<notin> set (to_string x)"
proof -
  have d: "c \<notin> set (digits_text t)" for t
    using assms by (intro not_in_digits_text) simp_all
  have z: "c \<noteq> CHR ''0''" using assms(1) by (auto simp: is_digit_def)
  show ?thesis
    unfolding to_string_def using assms(2) d z by (cases x) simp_all
qed

lemma not_in_toFixed1:
  assumes "\<not> is_digit c" and "c \<notin> set ''.e+-NaInfity''"
  shows "c \<notin> set (toFixed1 x)"
proof (cases x)
  case (Finite m e)
  show ?thesis
    unfolding Finite toFixed1_def using not_in_to_string [OF assms, of "Finite m e"] assms(2)
    by (simp add: Let_def not_in_digits_of [OF assms(1)])
qed (use not_in_to_string [OF assms, of x] in \<open>simp_all add: toFixed1_def\<close>)

lemma unit_letters:
  "CHR ''k'' \<notin> set ''.e+-NaInfity''" "CHR ''m'' \<notin> set ''.e+-NaInfity''"
  "CHR ''s'' \<notin> set ''.e+-NaInfity''"
  by simp_all

lemma k_in_distance_form:
  "CHR ''k'' \<in> set (duration_form (Some Distance) v) \<longleftrightarrow> num_ge v 1000"
  using not_in_to_string [OF letters_not_digits(1) unit_letters(1), of v]
  by (simp add: duration_form_def)

lemma m_in_time_form:
  "ty \<noteq> Some Distance \<Longrightarrow> CHR ''m'' \<in> set (duration_form ty v) \<longleftrightarrow> num_ge v 60"
  using not_in_to_string [OF letters_not_digits(2) unit_letters(2), of v]
  by (simp add: duration_form_def)

lemma work_segment_form:
  "formatSingleInterval i wt pm =
     duration_form (i_durationType i) (i_duration i) @ '' '' @
       (case i_ramp i of
          Some (a, b) \<Rightarrow> ''Ramp '' @ a @ ''-'' @ b
        | None \<Rightarrow> formatIntensity (i_intensity i) wt pm)"
  by (simp add: formatSingleInterval_def duration_form_def Let_def
      split: option.split prod.split)

lemma recovery_segment_form:
  "i_recovery i = Some r \<Longrightarrow> num_truthy r \<Longrightarrow>
   formatRecovery i wt pm =
     duration_form (i_durationType i) r @ '' '' @
       formatIntensity (str_or (i_recoveryIntensity i) ''Easy'') wt pm"
  by (simp add: formatRecovery_def duration_form_def Let_def)

subsection \<open>Whole numbers\<close>

text \<open>The quotient of a whole number of the safe range by a constant is rounded, but not
  so far that the whole minutes or the nearest tenth of a kilometer change; and such a
  number is printed in its decimal digits.\<close>

lemma bit_length_bound: "n < 2 ^ k \<Longrightarrow> bit_length n \<le> k"
proof (induction k arbitrary: n)
  case 0
  then show ?case by (subst bit_length.simps) simp
next
  case (Suc k)
  show ?case
  proof (cases "n \<le> 0")
    case True
    then show ?thesis by (subst bit_length.simps) simp
  next
    case False
    from Suc.prems have "n div 2 < 2 ^ k" by simp
    then have "bit_length (n div 2) \<le> k" by (rule Suc.IH)
    with False show ?thesis by (subst bit_length.simps) simp
  qed
qed

lemma bit_length_pos: "0 < n \<Longrightarrow> 1 \<le> bit_length n"
  by (subst bit_length.simps) simp

lemma bit_length_constants: "bit_length 1000 = 10" "bit_length 60 = 6"
  by code_simp+

lemma round_half_even_near:
  assumes "0 < b"
  shows "2 * \<bar>b * round_half_even a b - a\<bar> \<le> b"
proof -
  define f where "f = a div b"
  define r where "r = a mod b"
  have a: "a = b * f + r" unfolding f_def r_def by simp
  have r: "0 \<le> r" "r < b" unfolding r_def using assms by simp_all
  consider "2 * r < b" | "b < 2 * r" | "2 * r = b" by linarith
  then show ?thesis
  proof cases
    case 1
    then have "round_half_even a b = f"
      unfolding round_half_even_def f_def r_def by (simp add: Let_def)
    then show ?thesis using a 1 r by simp
  next
    case 2
    then have "round_half_even a b = f + 1"
      unfolding round_half_even_def f_def r_def by (simp add: Let_def)
    then show ?thesis using a 2 r by (simp add: algebra_simps)
  next
    case 3
    then have "round_half_even a b = f \<or> round_half_even a b = f + 1"
      unfolding round_half_even_def f_def r_def by (simp add: Let_def)
    then show ?thesis using a 3 r by (auto simp: algebra_simps)
  qed
qed

lemma whole_over:
  assumes n: "0 < n" "n < 2 ^ 53" and c: "0 < c" "1 \<le> bit_length c" "bit_length c \<le> 10"
  shows "\<exists>k. int (bit_length c) - 1 \<le> k \<and> k \<le> 62
           \<and> num_over (num_of_int n) c = Finite (round_half_even (n * 2 ^ nat k) c) (- k)"
proof -
  define k0 where "k0 = 53 - (int (bit_length n) - int (bit_length c))"
  define k1 where "k1 = (if scale_down c k0 * 2 ^ 53 \<le> scale_up n k0 then k0 - 1 else k0)"
  have bn: "1 \<le> bit_length n" "bit_length n \<le> 53"
    using n(1) apply (rule bit_length_pos)
    using n(2) by (rule bit_length_bound)
  have k0: "int (bit_length c) \<le> k0" "k0 \<le> 62" unfolding k0_def using bn c by simp_all
  have k1: "int (bit_length c) - 1 \<le> k1" "k1 \<le> 62" unfolding k1_def using k0 by simp_all
  have nn: "0 \<le> k1" using k1 c by simp
  have n0: "n \<noteq> 0" using n by simp
  have e1: "round_to_double n c 0 =
      (let k = (if 0 - k1 < - 1074 then 0 + 1074 else k1);
           m = round_half_even (scale_up n k) (scale_down c k)
       in if 971 < 0 - k \<or> (0 - k = 971 \<and> 2 ^ 53 \<le> m)
          then (if 0 < n then PosInfinity else NegInfinity)
          else Finite (if 0 < n then m else - m) (0 - k))"
    unfolding round_to_double_def k1_def k0_def
    by (simp only: Let_def abs_of_pos [OF n(1)] n0 if_False)
  have kk: "(if 0 - k1 < - 1074 then 0 + 1074 else k1) = k1" using k1 nn by simp
  have up: "scale_up n k1 = n * 2 ^ nat k1" using nn by (simp add: scale_up_def)
  have dn: "scale_down c k1 = c" using nn by (simp add: scale_down_def)
  have no: "\<not> (971 < 0 - k1 \<or> (0 - k1 = 971 \<and> 2 ^ 53 \<le> round_half_even (n * 2 ^ nat k1) c))"
    using nn by simp
  have r: "round_to_double n c 0 = Finite (round_half_even (n * 2 ^ nat k1) c) (- k1)"
    unfolding e1 kk Let_def up dn using no n(1) by (simp only: if_False if_True) simp
  show ?thesis
    using k1 r by (intro exI [of _ k1]) (simp add: num_over_def num_of_int_def)
qed

lemma digits_of_nonempty: "digits_of n \<noteq> []"
  by (subst digits_of.simps) simp

lemma digits_of_length:
  "1 \<le> n \<Longrightarrow> 10 ^ (length (digits_of n) - 1) \<le> n \<and> n < 10 ^ length (digits_of n)"
proof (induction n rule: digits_of.induct)
  case (1 n)
  show ?case
  proof (cases "n < 10")
    case True
    then have "digits_of n = [digit_char n]" by (subst digits_of.simps) simp
    with True 1 show ?thesis by simp
  next
    case False
    define q where "q = n div 10"
    define l where "l = length (digits_of q)"
    have d: "digits_of n = digits_of q @ [digit_char (n mod 10)]"
      unfolding q_def using False by (subst digits_of.simps) simp
    have q1: "1 \<le> q" unfolding q_def using False by simp
    have l1: "1 \<le> l" unfolding l_def using digits_of_nonempty [of q]
      by (cases "digits_of q") simp_all
    from 1 False q1 have ih: "10 ^ (l - 1) \<le> q" "q < 10 ^ l"
      unfolding q_def l_def by simp_all
    have n: "10 * q \<le> n" "n < 10 * q + 10" unfolding q_def by simp_all
    have p: "(10::int) ^ l = 10 * 10 ^ (l - 1)" using l1 by (cases l) simp_all
    have "10 ^ l \<le> n" using ih(1) n(1) p by linarith
    moreover have "n < 10 ^ Suc l" using ih(2) n(2) by simp
    ultimately show ?thesis unfolding d using l1 by (simp add: l_def)
  qed
qed

lemma digits_of_times_ten:
  "1 \<le> s \<Longrightarrow> digits_of (s * 10 ^ z) = digits_of s @ replicate z (CHR ''0'')"
proof (induction z)
  case 0
  show ?case by simp
next
  case (Suc z)
  have big: "\<not> s * 10 ^ Suc z < 10"
  proof -
    have "1 * 10 ^ Suc z \<le> s * 10 ^ Suc z" using Suc.prems by (intro mult_right_mono) simp_all
    moreover have "(10::int) \<le> 10 ^ Suc z" by simp
    ultimately show ?thesis by linarith
  qed
  have "digits_of (s * 10 ^ Suc z)
      = digits_of (s * 10 ^ Suc z div 10) @ [digit_char (s * 10 ^ Suc z mod 10)]"
    using big by (subst digits_of.simps) simp
  also have "s * 10 ^ Suc z div 10 = s * 10 ^ z" by simp
  also have "s * 10 ^ Suc z mod 10 = 0" by simp
  also have "digit_char 0 = CHR ''0''" by (simp add: digit_char_def)
  finally show ?case using Suc by (simp add: replicate_append_same)
qed

lemma bit_length_lower: "2 ^ k \<le> n \<Longrightarrow> Suc k \<le> bit_length n"
proof (induction k arbitrary: n)
  case 0
  then show ?case by (subst bit_length.simps) simp
next
  case (Suc k)
  then have "2 ^ k \<le> n div 2" by simp
  then have "Suc k \<le> bit_length (n div 2)" by (rule Suc.IH)
  moreover have "0 < n" using Suc.prems by (smt (verit) zero_less_power)
  ultimately show ?case by (subst bit_length.simps) simp
qed

lemma round_half_even_one: "round_half_even a 1 = a"
  by (simp add: round_half_even_def)

text \<open>A whole number below \<open>2 ^ 53\<close>, or an even one below \<open>2 ^ 54\<close>, is a binary64 value:
  read as a number it is itself.\<close>

lemma whole_reads_exactly:
  assumes d: "0 < d" and r: "d < 2 ^ 53 \<or> (d < 2 ^ 54 \<and> even d)"
  shows "same_value (round_to_double d 1 0) n 0 \<longleftrightarrow> d = n"
proof (cases "d < 2 ^ 53")
  case True
  have b1: "bit_length 1 = 1" by (simp add: bit_length.simps)
  from whole_over [of d 1] d True obtain k where k: "0 \<le> k"
    and o: "num_over (num_of_int d) 1 = Finite (round_half_even (d * 2 ^ nat k) 1) (- k)"
    by (auto simp: b1)
  have "round_to_double d 1 0 = Finite (d * 2 ^ nat k) (- k)"
    using o by (simp add: num_over_def num_of_int_def round_half_even_one)
  then show ?thesis using k by (simp add: same_value_def scale_up_def)
next
  case False
  with r have hi: "d < 2 ^ 54" and ev: "even d" and lo: "2 ^ 53 \<le> d" by simp_all
  have "bit_length d \<le> 54" using hi by (rule bit_length_bound)
  moreover have "Suc 53 \<le> bit_length d" using lo by (rule bit_length_lower)
  ultimately have bl: "bit_length d = 54" by simp
  have b1: "bit_length 1 = 1" by (simp add: bit_length.simps)
  have d0: "d \<noteq> 0" using d by simp
  have k0: "53 - (int (bit_length d) - int (bit_length 1)) = 0" by (simp add: bl b1)
  have e1: "round_to_double d 1 0 =
      (let k1 = (if scale_down 1 0 * 2 ^ 53 \<le> scale_up d 0 then 0 - 1 else 0);
           k = (if 0 - k1 < - 1074 then 0 + 1074 else k1);
           m = round_half_even (scale_up d k) (scale_down 1 k)
       in if 971 < 0 - k \<or> (0 - k = 971 \<and> 2 ^ 53 \<le> m)
          then (if 0 < d then PosInfinity else NegInfinity)
          else Finite (if 0 < d then m else - m) (0 - k))"
    unfolding round_to_double_def
    by (simp only: Let_def abs_of_pos [OF d] d0 if_False k0)
  have k1: "(if scale_down 1 0 * 2 ^ 53 \<le> scale_up d 0 then 0 - 1 else 0) = (- 1 :: int)"
    using lo by (simp add: scale_up_def scale_down_def)
  have half: "round_half_even (scale_up d (- 1)) (scale_down 1 (- 1)) = d div 2"
    using ev by (simp add: scale_up_def scale_down_def round_half_even_def Let_def)
  have "round_to_double d 1 0 = Finite (d div 2) 1"
    unfolding e1 k1 Let_def using d by (simp add: half)
  then show ?thesis using ev by (simp add: same_value_def scale_up_def)
qed

lemma reads_back_whole:
  assumes j: "j \<le> 0" and s: "0 < s"
    and r: "s * 10 ^ nat (- j) < 2 ^ 53 \<or> (s * 10 ^ nat (- j) < 2 ^ 54 \<and> even (s * 10 ^ nat (- j)))"
  shows "reads_back s j n 0 \<longleftrightarrow> s * 10 ^ nat (- j) = n"
proof (cases "j = 0")
  case True
  with r s show ?thesis
    using whole_reads_exactly [of s n] by (simp add: reads_back_def)
next
  case False
  with j have "j < 0" by simp
  moreover have "0 < s * 10 ^ nat (- j)" using s by simp
  ultimately show ?thesis
    using whole_reads_exactly [of "s * 10 ^ nat (- j)" n] r by (simp add: reads_back_def)
qed

lemma digits_for_whole:
  assumes N: "1 \<le> N" "N < 2 ^ 53" and L: "L = int (length (digits_of N))"
    and k: "1 \<le> k" "k \<le> L"
  shows "digits_for N 0 L k =
     (if 10 ^ nat (L - k) dvd N then Some (N div 10 ^ nat (L - k)) else None)"
proof -
  define p :: int where "p = 10 ^ nat (L - k)"
  define lo where "lo = N div p"
  have len: "10 ^ (length (digits_of N) - 1) \<le> N" "N < 10 ^ length (digits_of N)"
    using digits_of_length [OF N(1)] by simp_all
  have p0: "0 < p" unfolding p_def by simp
  have "nat (L - k) \<le> length (digits_of N) - 1" using k L by simp
  then have "p \<le> 10 ^ (length (digits_of N) - 1)"
    unfolding p_def by (intro power_increasing) simp_all
  with len(1) have pN: "p \<le> N" by simp
  have lo1: "0 < lo" unfolding lo_def using pN p0 by (simp add: pos_imp_zdiv_pos_iff)
  have lop: "lo * p \<le> N" "N < (lo + 1) * p"
    unfolding lo_def using p0
    by (simp_all add: algebra_simps minus_mod_eq_mult_div [symmetric] div_mult_mod_eq
        pos_mod_bound pos_mod_sign)
  have j: "k - L \<le> 0" "- (k - L) = L - k" using k by simp_all
  have rlo: "reads_back lo (k - L) N 0 \<longleftrightarrow> lo * p = N"
    using reads_back_whole [OF j(1) lo1, of N] lop(1) N(2) unfolding j(2) p_def by simp
  have hi_small: "(lo + 1) * p < 2 ^ 54" using lop(1) pN N(2) by (simp add: algebra_simps)
  have hi_even: "(lo + 1) * p < 2 ^ 53 \<or> even ((lo + 1) * p)"
  proof (cases "L = k")
    case True
    then have p1: "p = 1" unfolding p_def by simp
    show ?thesis
    proof (cases "N + 1 < 2 ^ 53")
      case True
      then show ?thesis using p1 by (simp add: lo_def)
    next
      case False
      with N(2) have "N + 1 = 2 ^ 53" by simp
      then show ?thesis using p1 by (simp add: lo_def)
    qed
  next
    case False
    with k have "0 < nat (L - k)" by simp
    then have "even p" unfolding p_def by simp
    then show ?thesis by simp
  qed
  have rhi: "reads_back (lo + 1) (k - L) N 0 \<longleftrightarrow> (lo + 1) * p = N"
    using reads_back_whole [OF j(1), of "lo + 1" N] lo1 hi_small hi_even
    unfolding j(2) p_def by auto
  have nhi: "\<not> reads_back (lo + 1) (k - L) N 0" using rhi lop(2) by simp
  have dv: "lo * p = N \<longleftrightarrow> p dvd N"
    unfolding lo_def using p0 by (metis dvd_div_mult_self dvd_triv_right)
  have num: "(if 0 \<le> k - L then scale_up N 0 * 10 ^ nat (k - L) else scale_up N 0) = N"
    using k by (simp add: scale_up_def)
  have den: "(if 0 \<le> k - L then scale_down 1 0 else scale_down 1 0 * 10 ^ nat (- (k - L))) = p"
    using k unfolding p_def by (auto simp: scale_down_def)
  show ?thesis
    unfolding digits_for_def Let_def num den lo_def [symmetric] p_def [symmetric]
    using nhi rlo dv lo1 by simp
qed

lemma first_some_found:
  "first_some f xs = Some y \<Longrightarrow>
   \<exists>as k bs. xs = as @ k # bs \<and> f k = Some y \<and> (\<forall>a \<in> set as. f a = None)"
proof (induction xs)
  case Nil
  then show ?case by simp
next
  case (Cons x xs)
  show ?case
  proof (cases "f x")
    case None
    with Cons obtain as k bs where "xs = as @ k # bs" "f k = Some y" "\<forall>a \<in> set as. f a = None"
      by auto
    with None show ?thesis by (intro exI [of _ "x # as"] exI [of _ k] exI [of _ bs]) simp
  next
    case (Some z)
    with Cons.prems show ?thesis by (intro exI [of _ "[]"] exI [of _ x] exI [of _ xs]) simp
  qed
qed

lemma first_some_exists: "x \<in> set xs \<Longrightarrow> f x \<noteq> None \<Longrightarrow> first_some f xs \<noteq> None"
  by (induction xs) (auto split: option.split)

lemma upto_split_sorted:
  assumes "[a..b] = as @ k # bs" and "x \<in> set [a..b]" and "x < k"
  shows "x \<in> set as"
proof -
  have "sorted ([a..b])" "distinct [a..b]" by simp_all
  then have s: "sorted (as @ k # bs)" and d: "distinct (as @ k # bs)" using assms(1) by simp_all
  from assms(2) have "x \<in> set as \<or> x = k \<or> x \<in> set bs" unfolding assms(1) by auto
  moreover have "x \<noteq> k" using assms(3) by simp
  moreover have "x \<notin> set bs" using s assms(3) by (auto simp: sorted_append)
  ultimately show ?thesis by simp
qed

text \<open>The search for the shortest digits of a whole number of the safe range finds the
  number without the zeros at its end, and the text is the number in decimal digits.\<close>

lemma whole_number_digits:
  assumes N: "1 \<le> N" "N < 2 ^ 53"
  shows "digits_text (shortest_digits N 0) = digits_of N"
proof -
  define L where "L = int (length (digits_of N))"
  define f where "f = (\<lambda>k. map_option (\<lambda>s. (s, k)) (digits_for N 0 L k))"
  have len: "10 ^ (length (digits_of N) - 1) \<le> N" "N < 10 ^ length (digits_of N)"
    using digits_of_length [OF N(1)] by simp_all
  have L1: "1 \<le> L" unfolding L_def using digits_of_nonempty [of N]
    by (cases "digits_of N") simp_all
  have lt: "(10::int) ^ (length (digits_of N) - 1) < 10 ^ 16" using len(1) N(2) by simp
  have "length (digits_of N) - 1 < 16" by (rule power_less_imp_less_exp [OF _ lt]) simp
  then have L16: "L \<le> 16" unfolding L_def by simp
  have n: "decimal_exponent (scale_up N 0) (scale_down 1 0) = L"
    using N(1) by (simp add: decimal_exponent_def scale_up_def scale_down_def L_def)
  have fL: "f L = Some (N, L)"
    unfolding f_def using digits_for_whole [OF N L_def L1 order_refl] by simp
  have "L \<in> set [1..17]" using L1 L16 by simp
  then have "first_some f [1..17] \<noteq> None" using fL by (intro first_some_exists [of L]) simp_all
  then obtain y where y: "first_some f [1..17] = Some y" by auto
  from first_some_found [OF y] obtain as K bs
    where split: "[1..17] = as @ K # bs" and fK: "f K = Some y" and none: "\<forall>a \<in> set as. f a = None"
    by blast
  have "K \<in> set [1..17]" unfolding split by simp
  then have K1: "1 \<le> K" by simp
  have KL: "K \<le> L"
  proof (rule ccontr)
    assume "\<not> K \<le> L"
    then have "L < K" by simp
    with split \<open>L \<in> set [1..17]\<close> have "L \<in> set as" by (rule upto_split_sorted)
    with none fL show False by simp
  qed
  define z where "z = nat (L - K)"
  have dK: "digits_for N 0 L K = (if 10 ^ z dvd N then Some (N div 10 ^ z) else None)"
    unfolding z_def by (rule digits_for_whole [OF N L_def K1 KL])
  from fK obtain s where s: "digits_for N 0 L K = Some s" and ys: "y = (s, K)"
    unfolding f_def by auto
  from s dK have dv: "10 ^ z dvd N" and sN: "s = N div 10 ^ z"
    by (simp_all split: if_splits)
  have Ns: "N = s * 10 ^ z" using dv sN by simp
  have s1: "1 \<le> s" using N(1) Ns by (smt (verit) mult_le_0_iff zero_less_power)
  have Lz: "length (digits_of N) = nat K + z" unfolding z_def using KL K1 L_def by simp
  have "s * 10 ^ z < 10 ^ nat K * 10 ^ z" using len(2) unfolding Lz Ns [symmetric] power_add .
  then have sK: "s < 10 ^ nat K" by simp
  have sd: "shortest_digits N 0 = (s, K, L)"
    unfolding shortest_digits_def n Let_def f_def [symmetric] y ys using sK by simp
  have "digits_text (s, K, L) = digits_of s @ replicate z (CHR ''0'')"
    using KL L16 by (simp add: digits_text_def z_def)
  also have "\<dots> = digits_of N" unfolding Ns using s1 by (rule digits_of_times_ten [symmetric])
  finally show ?thesis unfolding sd .
qed

lemma to_string_whole: "- (2 ^ 53) < n \<Longrightarrow> n < 2 ^ 53 \<Longrightarrow> to_string (Finite n 0) = num_str n"
  by (simp add: to_string_def num_str_def whole_number_digits
      digits_of.simps [of 0] digit_char_def)

lemma num_ge_whole: "num_ge (num_of_int n) c \<longleftrightarrow> c \<le> n"
  by (simp add: num_ge_def num_of_int_def scale_up_def scale_down_def)

lemma num_gt_whole: "num_gt (Finite n 0) c \<longleftrightarrow> c < n"
  by (simp add: num_gt_def scale_up_def scale_down_def)

lemma num_rem_whole: "0 \<le> n \<Longrightarrow> num_rem (num_of_int n) c = Finite (n mod c) 0"
  by (cases "n = 0") (simp_all add: num_rem_def num_of_int_def)

lemma whole_meters:
  assumes "- (2 ^ 53) < n" and "n < 1000"
  shows "duration_form (Some Distance) (num_of_int n) = meters_text n"
  using assms
  by (simp add: duration_form_def num_ge_whole meters_text_def num_of_int_def [symmetric])
     (simp add: num_of_int_def to_string_whole)

lemma whole_seconds:
  assumes "ty \<noteq> Some Distance" and "- (2 ^ 53) < n" and "n < 60"
  shows "duration_form ty (num_of_int n) = seconds_text n"
  using assms
  by (simp add: duration_form_def num_ge_whole seconds_text_def)
     (simp add: num_of_int_def to_string_whole)

lemma whole_minutes_floor:
  assumes "60 \<le> n" and "n < 2 ^ 53"
  shows "num_floor (num_over (num_of_int n) 60) = Finite (n div 60) 0"
proof -
  from whole_over [of n 60] assms obtain k where k: "5 \<le> k" "k \<le> 62"
    and o: "num_over (num_of_int n) 60 = Finite (round_half_even (n * 2 ^ nat k) 60) (- k)"
    by (auto simp: bit_length_constants)
  define D :: int where "D = 2 ^ nat k"
  define M where "M = round_half_even (n * D) 60"
  define q where "q = n div 60"
  define r where "r = n mod 60"
  have "(2::int) ^ 5 \<le> 2 ^ nat k" using k by (intro power_increasing) simp_all
  then have D: "32 \<le> D" unfolding D_def by simp
  have nqr: "n = 60 * q + r" and r: "0 \<le> r" "r < 60" unfolding q_def r_def by simp_all
  have near: "2 * \<bar>60 * M - n * D\<bar> \<le> 60"
    unfolding M_def by (rule round_half_even_near) simp
  define X where "X = q * D"
  define Y where "Y = r * D"
  have Y: "0 \<le> Y" "Y \<le> 59 * D"
    unfolding Y_def using r D by (simp_all add: mult_right_mono)
  have nD: "n * D = 60 * X + Y" unfolding nqr X_def Y_def by (simp add: algebra_simps)
  have near': "\<bar>60 * M - (60 * X + Y)\<bar> \<le> 30" using near unfolding nD by simp
  have lo: "X \<le> M" using near' Y by linarith
  have hi: "M < X + D" using near' Y D by linarith
  have "M div D = (M - X + q * D) div D" by (simp add: X_def)
  also have "\<dots> = q + (M - X) div D" by (rule div_mult_self1) (use D in simp)
  also have "(M - X) div D = 0" using lo hi by simp
  finally have "M div D = q" by simp
  then show ?thesis
    unfolding o num_floor_def using k by (simp add: M_def D_def q_def)
qed

lemma whole_minutes:
  assumes "ty \<noteq> Some Distance" and "60 \<le> n" and "n < 2 ^ 53"
  shows "duration_form ty (num_of_int n) = minutes_text n"
proof -
  have f: "num_floor (num_over (num_of_int n) 60) = Finite (n div 60) 0"
    using assms(2,3) by (rule whole_minutes_floor)
  have r: "num_rem (num_of_int n) 60 = Finite (n mod 60) 0"
    using assms(2) by (intro num_rem_whole) simp
  have q: "to_string (Finite (n div 60) 0) = num_str (n div 60)"
    using assms(2,3) by (intro to_string_whole) simp_all
  have s: "to_string (Finite (n mod 60) 0) = num_str (n mod 60)"
    by (intro to_string_whole) simp_all
  have p: "0 < n mod 60 \<longleftrightarrow> n mod 60 \<noteq> 0"
    using pos_mod_sign [of 60 n] by linarith
  show ?thesis
    using assms(1,2)
    by (simp add: duration_form_def num_ge_whole f r q s num_gt_whole p minutes_text_def)
qed

lemma whole_kilometers:
  assumes lo: "1000 \<le> n" and hi: "n < 2 ^ 53"
  shows "\<exists>t. duration_form (Some Distance) (num_of_int n) = tenths_text t @ ''km''
           \<and> \<bar>100 * t - n\<bar> \<le> 50"
proof -
  from whole_over [of n 1000] assms obtain k where k: "9 \<le> k" "k \<le> 62"
    and o: "num_over (num_of_int n) 1000 = Finite (round_half_even (n * 2 ^ nat k) 1000) (- k)"
    by (auto simp: bit_length_constants)
  define D :: int where "D = 2 ^ nat k"
  define M where "M = round_half_even (n * D) 1000"
  define t where "t = (20 * M + D) div (2 * D)"
  define y where "y = n * D"
  have "(2::int) ^ 9 \<le> 2 ^ nat k" using k by (intro power_increasing) simp_all
  then have D512: "512 \<le> D" unfolding D_def by simp
  have y1: "2 * \<bar>1000 * M - y\<bar> \<le> 1000"
    unfolding M_def y_def by (rule round_half_even_near) simp
  have ylo: "1000 * D \<le> y" unfolding y_def using lo D512 by (simp add: mult_right_mono)
  have yhi: "y \<le> 2 ^ 53 * D" unfolding y_def using hi D512 by (simp add: mult_right_mono)
  have y1a: "y - 500 \<le> 1000 * M" and y1b: "1000 * M \<le> y + 500"
    using y1 by (simp_all add: abs_le_iff)
  have Mpos: "0 < M" using y1a ylo D512 by linarith
  have Mhi: "M < 10 ^ 21 * D" using y1b yhi D512 by simp
  have fixed: "toFixed1 (Finite M (- k)) = tenths_text t"
    unfolding toFixed1_def tenths_text_def t_def
    using k Mpos Mhi by (simp add: scale_up_def scale_down_def Let_def D_def)
  define x where "x = D * t"
  have "20 * M + D = 2 * D * t + (20 * M + D) mod (2 * D)"
    unfolding t_def by simp
  moreover have "0 \<le> (20 * M + D) mod (2 * D)" and "(20 * M + D) mod (2 * D) < 2 * D"
    using D512 by simp_all
  ultimately have "2 * D * t \<le> 20 * M + D" and "20 * M + D < 2 * D * t + 2 * D"
    by linarith+
  then have x1: "2 * x \<le> 20 * M + D" and x2: "20 * M + D < 2 * x + 2 * D"
    unfolding x_def by (simp_all add: mult.assoc)
  have "\<bar>100 * x - y\<bar> \<le> 50 * D + 500"
    using x1 x2 y1 by (simp add: abs_le_iff)
  also have "\<dots> < 51 * D" using D512 by simp
  finally have "\<bar>D * (100 * t - n)\<bar> < D * 51"
    unfolding x_def y_def by (simp add: algebra_simps)
  then have "D * \<bar>100 * t - n\<bar> < D * 51"
    using D512 by (simp add: abs_mult)
  then have near: "\<bar>100 * t - n\<bar> < 51"
    using D512 by (simp add: mult_less_cancel_left_pos)
  have "duration_form (Some Distance) (num_of_int n) = tenths_text t @ ''km''"
    using lo by (simp add: duration_form_def num_ge_whole o fixed [unfolded M_def D_def])
  with near show ?thesis by (intro exI [of _ t]) simp
qed

text \<open>
  C2, as amended. The text of a work segment and of a recovery segment starts with the
  duration text of one and the same rule. For every number the rule writes a distance in
  kilometers (with the letter k) exactly when it is 1000 or more and in meters otherwise,
  and a time in minutes (with the letter m) exactly when it is 60 or more and in seconds
  otherwise. For a whole number of the safe range the meters, the minutes with their
  leftover seconds and the seconds are whole, and the kilometer text has one decimal and
  is the tenth of a kilometer nearest to the value. The segments are those whose intensity
  label is plain.
\<close>

theorem duration_text_partition:
  "(plain_label (i_intensity i) \<longrightarrow>
      formatSingleInterval i wt pm =
        duration_form (i_durationType i) (i_duration i) @ '' '' @
          (case i_ramp i of
             Some (a, b) \<Rightarrow> ''Ramp '' @ a @ ''-'' @ b
           | None \<Rightarrow> formatIntensity (i_intensity i) wt pm))
   \<and> (i_recovery i = Some r \<and> num_truthy r
        \<and> plain_label (str_or (i_recoveryIntensity i) ''Easy'') \<longrightarrow>
        formatRecovery i wt pm =
          duration_form (i_durationType i) r @ '' '' @
            formatIntensity (str_or (i_recoveryIntensity i) ''Easy'') wt pm)
   \<and> (CHR ''k'' \<in> set (duration_form (Some Distance) v) \<longleftrightarrow> num_ge v 1000)
   \<and> (ty \<noteq> Some Distance \<longrightarrow>
        (CHR ''m'' \<in> set (duration_form ty v) \<longleftrightarrow> num_ge v 60))
   \<and> (1000 \<le> n \<and> n < 2 ^ 53 \<longrightarrow>
        (\<exists>t. duration_form (Some Distance) (num_of_int n) = tenths_text t @ ''km''
             \<and> \<bar>100 * t - n\<bar> \<le> 50))
   \<and> (- (2 ^ 53) < n \<and> n < 1000 \<longrightarrow>
        duration_form (Some Distance) (num_of_int n) = meters_text n)
   \<and> (ty \<noteq> Some Distance \<and> 60 \<le> n \<and> n < 2 ^ 53 \<longrightarrow>
        duration_form ty (num_of_int n) = minutes_text n)
   \<and> (ty \<noteq> Some Distance \<and> - (2 ^ 53) < n \<and> n < 60 \<longrightarrow>
        duration_form ty (num_of_int n) = seconds_text n)"
proof (intro conjI impI)
  show "formatSingleInterval i wt pm =
        duration_form (i_durationType i) (i_duration i) @ '' '' @
          (case i_ramp i of
             Some (a, b) \<Rightarrow> ''Ramp '' @ a @ ''-'' @ b
           | None \<Rightarrow> formatIntensity (i_intensity i) wt pm)"
    by (rule work_segment_form)
next
  assume "i_recovery i = Some r \<and> num_truthy r
        \<and> plain_label (str_or (i_recoveryIntensity i) ''Easy'')"
  then show "formatRecovery i wt pm =
          duration_form (i_durationType i) r @ '' '' @
            formatIntensity (str_or (i_recoveryIntensity i) ''Easy'') wt pm"
    by (intro recovery_segment_form) simp_all
next
  show "CHR ''k'' \<in> set (duration_form (Some Distance) v) \<longleftrightarrow> num_ge v 1000"
    by (rule k_in_distance_form)
next
  assume "ty \<noteq> Some Distance"
  then show "CHR ''m'' \<in> set (duration_form ty v) \<longleftrightarrow> num_ge v 60"
    by (rule m_in_time_form)
next
  assume "1000 \<le> n \<and> n < 2 ^ 53"
  then show "\<exists>t. duration_form (Some Distance) (num_of_int n) = tenths_text t @ ''km''
             \<and> \<bar>100 * t - n\<bar> \<le> 50"
    by (intro whole_kilometers) simp_all
next
  assume "- (2 ^ 53) < n \<and> n < 1000"
  then show "duration_form (Some Distance) (num_of_int n) = meters_text n"
    by (intro whole_meters) simp_all
next
  assume "ty \<noteq> Some Distance \<and> 60 \<le> n \<and> n < 2 ^ 53"
  then show "duration_form ty (num_of_int n) = minutes_text n"
    by (intro whole_minutes) simp_all
next
  assume "ty \<noteq> Some Distance \<and> - (2 ^ 53) < n \<and> n < 60"
  then show "duration_form ty (num_of_int n) = seconds_text n"
    by (intro whole_seconds) simp_all
qed

lemma example_segments:
  "formatSingleInterval example_interval Run Map.empty = ''1.0km 5K pace''"
  "formatRecovery example_interval Run Map.empty = ''200m Easy pace''"
  "duration_form (Some Distance) (num_of_int 1150) = ''1.1km''"
  "duration_form (Some Distance) (num_of_int 999) = ''999m''"
  "duration_form (Some Time) (num_of_int 90) = ''1m30s''"
  "duration_form None (num_of_int 120) = ''2m''"
  "duration_form None (num_of_int 59) = ''59s''"
  "duration_form (Some Distance) (Finite 1999 (- 1)) = ''999.5m''"
  "duration_form (Some Time) (Finite 181 (- 1)) = ''1m30.5s''"
  "meters_text 999 = ''999m''"
  "minutes_text 90 = ''1m30s''"
  "seconds_text 59 = ''59s''"
  by code_simp+

lemma example_labels:
  "plain_label (i_intensity example_interval)"
  "i_recovery example_interval = Some (num_of_int 200) \<and> num_truthy (num_of_int 200)
     \<and> plain_label (str_or (i_recoveryIntensity example_interval) ''Easy'')"
  "\<not> num_ge (Finite 1999 (- 1)) 1000"
  "num_ge (Finite 181 (- 1)) 60"
  by code_simp+

theorem duration_text_partition_witness:
  "formatSingleInterval example_interval Run Map.empty = ''1.0km 5K pace''
   \<and> formatRecovery example_interval Run Map.empty = ''200m Easy pace''
   \<and> CHR ''k'' \<notin> set (duration_form (Some Distance) (Finite 1999 (- 1)))
   \<and> CHR ''m'' \<in> set (duration_form (Some Time) (Finite 181 (- 1)))
   \<and> (\<exists>t. ''1.1km'' = tenths_text t @ ''km'' \<and> \<bar>100 * t - 1150\<bar> \<le> 50)
   \<and> duration_form (Some Distance) (num_of_int 999) = ''999m''
   \<and> duration_form (Some Time) (num_of_int 90) = ''1m30s''
   \<and> duration_form (Some Time) (num_of_int 59) = ''59s''"
proof -
  note t = duration_text_partition [of example_interval Run Map.empty "num_of_int 200"
      "Finite 1999 (- 1)" "Some Time" 1150]
  have "formatSingleInterval example_interval Run Map.empty =
        duration_form (i_durationType example_interval) (i_duration example_interval) @ '' '' @
          (case i_ramp example_interval of
             Some (a, b) \<Rightarrow> ''Ramp '' @ a @ ''-'' @ b
           | None \<Rightarrow> formatIntensity (i_intensity example_interval) Run Map.empty)"
    by (rule t [THEN conjunct1, THEN mp, OF example_labels(1)])
  also have "\<dots> = ''1.0km 5K pace''" by code_simp
  finally have work: "formatSingleInterval example_interval Run Map.empty = ''1.0km 5K pace''" .
  have "formatRecovery example_interval Run Map.empty =
          duration_form (i_durationType example_interval) (num_of_int 200) @ '' '' @
            formatIntensity (str_or (i_recoveryIntensity example_interval) ''Easy'') Run Map.empty"
    by (rule t [THEN conjunct2, THEN conjunct1, THEN mp, OF example_labels(2)])
  also have "\<dots> = ''200m Easy pace''" by code_simp
  finally have rec: "formatRecovery example_interval Run Map.empty = ''200m Easy pace''" .
  have k: "CHR ''k'' \<notin> set (duration_form (Some Distance) (Finite 1999 (- 1)))"
    using t [THEN conjunct2, THEN conjunct2, THEN conjunct1] example_labels(3) by simp
  have ty: "Some Time \<noteq> Some Distance" by simp
  have "CHR ''m'' \<in> set (duration_form (Some Time) (Finite 181 (- 1)))
      \<longleftrightarrow> num_ge (Finite 181 (- 1)) 60"
    by (rule duration_text_partition [of example_interval Run Map.empty "num_of_int 200"
          "Finite 181 (- 1)" "Some Time" 1150,
          THEN conjunct2, THEN conjunct2, THEN conjunct2, THEN conjunct1, THEN mp, OF ty])
  then have m: "CHR ''m'' \<in> set (duration_form (Some Time) (Finite 181 (- 1)))"
    using example_labels(4) by simp
  have rng: "(1000::int) \<le> 1150 \<and> (1150::int) < 2 ^ 53" by simp
  have "\<exists>t. duration_form (Some Distance) (num_of_int 1150) = tenths_text t @ ''km''
             \<and> \<bar>100 * t - 1150\<bar> \<le> 50"
    by (rule t [THEN conjunct2, THEN conjunct2, THEN conjunct2, THEN conjunct2,
          THEN conjunct1, THEN mp, OF rng])
  then have km: "\<exists>t. ''1.1km'' = tenths_text t @ ''km'' \<and> \<bar>100 * t - 1150\<bar> \<le> 50"
    by (simp only: example_segments)
  have rng2: "- (2 ^ 53) < (999::int) \<and> (999::int) < 1000" by simp
  have "duration_form (Some Distance) (num_of_int 999) = meters_text 999"
    by (rule duration_text_partition [of example_interval Run Map.empty "num_of_int 200"
          "Finite 1999 (- 1)" "Some Time" 999,
          THEN conjunct2, THEN conjunct2, THEN conjunct2, THEN conjunct2, THEN conjunct2,
          THEN conjunct1, THEN mp, OF rng2])
  then have me: "duration_form (Some Distance) (num_of_int 999) = ''999m''"
    by (simp only: example_segments)
  have rng3: "Some Time \<noteq> Some Distance \<and> (60::int) \<le> 90 \<and> (90::int) < 2 ^ 53" by simp
  have "duration_form (Some Time) (num_of_int 90) = minutes_text 90"
    by (rule duration_text_partition [of example_interval Run Map.empty "num_of_int 200"
          "Finite 1999 (- 1)" "Some Time" 90,
          THEN conjunct2, THEN conjunct2, THEN conjunct2, THEN conjunct2, THEN conjunct2,
          THEN conjunct2, THEN conjunct1, THEN mp, OF rng3])
  then have mi: "duration_form (Some Time) (num_of_int 90) = ''1m30s''"
    by (simp only: example_segments)
  have rng4: "Some Time \<noteq> Some Distance \<and> - (2 ^ 53) < (59::int) \<and> (59::int) < 60" by simp
  have "duration_form (Some Time) (num_of_int 59) = seconds_text 59"
    by (rule duration_text_partition [of example_interval Run Map.empty "num_of_int 200"
          "Finite 1999 (- 1)" "Some Time" 59,
          THEN conjunct2, THEN conjunct2, THEN conjunct2, THEN conjunct2, THEN conjunct2,
          THEN conjunct2, THEN conjunct2, THEN mp, OF rng4])
  then have se: "duration_form (Some Time) (num_of_int 59) = ''59s''"
    by (simp only: example_segments)
  from work rec k m km me mi se show ?thesis by (intro conjI)
qed

theorem duration_text_partition_counterexample:
  "i_durationType half_meter_interval = Some Distance
   \<and> i_duration half_meter_interval = Finite 1999 (- 1)
   \<and> same_value (num_times (Finite 1999 (- 1)) 2) 1999 0
   \<and> \<not> num_ge (i_duration half_meter_interval) 1000
   \<and> formatSingleInterval half_meter_interval Run Map.empty = ''999.5m Z2''
   \<and> formatRecovery half_meter_interval Run Map.empty = ''1.5km Easy pace''
   \<and> i_durationType half_second_interval = Some Time
   \<and> i_duration half_second_interval = Finite 181 (- 1)
   \<and> i_recovery half_second_interval = Some (Finite 119 (- 1))
   \<and> formatSingleInterval half_second_interval Run Map.empty = ''1m30.5s Z2''
   \<and> formatRecovery half_second_interval Run Map.empty = ''59.5s Easy pace''"
  by code_simp

subsection \<open>The pace mapping\<close>

lemma startsWith_iff: "startsWith s p \<longleftrightarrow> (\<exists>b. s = p @ b)"
proof
  assume "startsWith s p"
  then have "s = p @ drop (length p) s"
    unfolding startsWith_def by (metis append_take_drop_id)
  then show "\<exists>b. s = p @ b" ..
next
  assume "\<exists>b. s = p @ b"
  then show "startsWith s p" unfolding startsWith_def by auto
qed

lemma includes_str_iff: "includes_str s p \<longleftrightarrow> occurs_in p s"
proof (induction s)
  case Nil
  show ?case by (auto simp: occurs_in_def)
next
  case (Cons c cs)
  have "occurs_in p (c # cs) \<longleftrightarrow> (\<exists>b. c # cs = p @ b) \<or> occurs_in p cs"
    unfolding occurs_in_def by (auto simp: Cons_eq_append_conv)
  with Cons show ?case by (simp add: startsWith_iff)
qed

lemma has_clock_prefix_iff:
  "has_clock_prefix v \<longleftrightarrow>
     (\<exists>ds es r. ds \<noteq> [] \<and> es \<noteq> [] \<and> list_all is_digit ds \<and> list_all is_digit es
        \<and> v = ds @ '':'' @ es @ r)"
proof
  assume h: "has_clock_prefix v"
  define ds where "ds = takeWhile is_digit v"
  from h obtain d r where rest: "dropWhile is_digit v = CHR '':'' # d # r" and d: "is_digit d"
    unfolding has_clock_prefix_def by (auto split: list.splits)
  from h have "ds \<noteq> []" unfolding has_clock_prefix_def ds_def by simp
  moreover have "list_all is_digit ds"
    unfolding ds_def list_all_iff by (auto dest: set_takeWhileD)
  moreover have "v = ds @ '':'' @ [d] @ r"
    using takeWhile_dropWhile_id [of is_digit v] rest unfolding ds_def by simp
  ultimately show "\<exists>ds es r. ds \<noteq> [] \<and> es \<noteq> [] \<and> list_all is_digit ds \<and> list_all is_digit es
        \<and> v = ds @ '':'' @ es @ r"
    using d by (intro exI [of _ ds] exI [of _ "[d]"] exI [of _ r]) simp
next
  assume "\<exists>ds es r. ds \<noteq> [] \<and> es \<noteq> [] \<and> list_all is_digit ds \<and> list_all is_digit es
        \<and> v = ds @ '':'' @ es @ r"
  then obtain ds es r where ds: "ds \<noteq> []" "list_all is_digit ds"
    and es: "es \<noteq> []" "list_all is_digit es" and v: "v = ds @ '':'' @ es @ r"
    by blast
  from es obtain e es' where e: "es = e # es'" "is_digit e" by (cases es) auto
  have tw: "takeWhile is_digit v = ds"
    using ds v by (simp add: list_all_iff takeWhile_append2 letters_not_digits)
  have dw: "dropWhile is_digit v = CHR '':'' # e # es' @ r"
    using ds v e by (simp add: list_all_iff dropWhile_append2 letters_not_digits)
  show "has_clock_prefix v"
    unfolding has_clock_prefix_def tw dw using ds e by simp
qed

lemma looks_like_pace_iff:
  "spec_looks_like_pace v \<longleftrightarrow>
     includes_str v ''/km'' \<or> includes_str v ''/mi'' \<or> has_clock_prefix v"
  unfolding spec_looks_like_pace_def includes_str_iff has_clock_prefix_iff ..

lemma mentions_pace_iff: "spec_mentions_pace v \<longleftrightarrow> includes_str (toLowerCase v) ''pace''"
  unfolding spec_mentions_pace_def includes_str_iff ..

text \<open>
  C3, as amended. A label that is not empty and whose entry in the pace mapping is not
  the empty string is answered from the mapping alone: the mapped value as it is, with
  the word Pace behind it exactly when the value looks like a pace and does not mention
  one. The label is looked up as it is written. A plain label that is not empty and has
  no entry, or the empty string as its entry, goes on to the zone, percentage and lexicon
  rules. The empty label has the default for its answer, whatever the mapping holds.
\<close>

theorem mapped_intensity:
  "(label \<noteq> [] \<and> pm label = Some v \<and> v \<noteq> [] \<longrightarrow>
      formatIntensity label wt pm =
        (if spec_looks_like_pace v \<and> \<not> spec_mentions_pace v then v @ '' Pace'' else v))
   \<and> (label \<noteq> [] \<and> plain_label label \<and> str_or (pm label) [] = [] \<longrightarrow>
      formatIntensity label wt pm = formatIntensity_unmapped label wt)
   \<and> formatIntensity [] wt pm = (if wt = Run then ''Easy pace'' else ''moderate'')"
  by (simp add: formatIntensity_def str_or_def Let_def looks_like_pace_iff mentions_pace_iff)

lemma tempo_examples:
  "formatIntensity ''Tempo'' Run pace_of_tempo = ''4:30/km Pace''"
  "formatIntensity ''tempo'' Run pace_of_tempo = ''Z3''"
  "formatIntensity_unmapped ''tempo'' Run = ''Z3''"
  "pace_of_tempo ''Tempo'' = Some ''4:30/km''"
  "str_or (pace_of_tempo ''tempo'') [] = []"
  "plain_label ''tempo''"
  "str_or (cleared_mapping ''tempo'') [] = []"
  by code_simp+

theorem mapped_intensity_witness:
  "formatIntensity ''Tempo'' Run pace_of_tempo =
     (if spec_looks_like_pace ''4:30/km'' \<and> \<not> spec_mentions_pace ''4:30/km''
      then ''4:30/km'' @ '' Pace'' else ''4:30/km'')
   \<and> formatIntensity ''Tempo'' Run pace_of_tempo = ''4:30/km Pace''
   \<and> formatIntensity ''tempo'' Run pace_of_tempo = formatIntensity_unmapped ''tempo'' Run
   \<and> formatIntensity ''tempo'' Run cleared_mapping = formatIntensity_unmapped ''tempo'' Run
   \<and> formatIntensity [] Bike cleared_mapping = ''moderate''"
proof -
  have a: "''Tempo'' \<noteq> [] \<and> pace_of_tempo ''Tempo'' = Some ''4:30/km'' \<and> ''4:30/km'' \<noteq> []"
    by (simp add: tempo_examples)
  have b: "''tempo'' \<noteq> [] \<and> plain_label ''tempo'' \<and> str_or (pace_of_tempo ''tempo'') [] = []"
    by (simp add: tempo_examples)
  have c: "''tempo'' \<noteq> [] \<and> plain_label ''tempo'' \<and> str_or (cleared_mapping ''tempo'') [] = []"
    by (simp add: tempo_examples)
  have 3: "formatIntensity ''tempo'' Run cleared_mapping = formatIntensity_unmapped ''tempo'' Run"
    by (rule mapped_intensity [of "''tempo''" cleared_mapping "''4:30/km''" Run,
          THEN conjunct2, THEN conjunct1, THEN mp, OF c])
  have 4: "formatIntensity [] Bike cleared_mapping = ''moderate''"
    using mapped_intensity [of "''tempo''" cleared_mapping "''4:30/km''" Bike,
          THEN conjunct2, THEN conjunct2] by simp
  have 1: "formatIntensity ''Tempo'' Run pace_of_tempo =
     (if spec_looks_like_pace ''4:30/km'' \<and> \<not> spec_mentions_pace ''4:30/km''
      then ''4:30/km'' @ '' Pace'' else ''4:30/km'')"
    by (rule mapped_intensity [of "''Tempo''" pace_of_tempo "''4:30/km''" Run,
          THEN conjunct1, THEN mp, OF a])
  have 2: "formatIntensity ''tempo'' Run pace_of_tempo = formatIntensity_unmapped ''tempo'' Run"
    by (rule mapped_intensity [of "''tempo''" pace_of_tempo "''4:30/km''" Run,
          THEN conjunct2, THEN conjunct1, THEN mp, OF b])
  from 1 2 3 4 tempo_examples(1) show ?thesis by (intro conjI)
qed

theorem mapped_intensity_counterexample:
  "cleared_mapping ''tempo'' = Some []
   \<and> formatIntensity ''tempo'' Run cleared_mapping = ''Z3''
   \<and> formatIntensity ''tempo'' Run cleared_mapping = formatIntensity_unmapped ''tempo'' Run
   \<and> cleared_mapping [] = Some ''4:30/km''
   \<and> formatIntensity [] Run cleared_mapping = ''Easy pace''"
  by code_simp

subsection \<open>Whole workouts\<close>

text \<open>The formatter reads the type, the description, the duration, the distance, the
  intensity and the intervals of a workout, and nothing else.\<close>

lemma formatter_reads:
  assumes "w_type w = w_type w'" and "w_description w = w_description w'"
    and "w_duration w = w_duration w'" and "w_distance w = w_distance w'"
    and "w_intensity w = w_intensity w'" and "w_intervals w = w_intervals w'"
  shows "formatWorkoutForIntervalsICU w pm = formatWorkoutForIntervalsICU w' pm"
  unfolding formatWorkoutForIntervalsICU_def synthetic_interval_def assms ..

lemma easy_run_text: "formatWorkoutForIntervalsICU easy_run Map.empty = ''- 5.0km Easy pace''"
  by code_simp

text \<open>
  C4, as amended. The run of 30 minutes and 5 kilometers at the intensity easy, with no
  intervals and an empty description, formatted with an empty pace mapping, is the single
  line \<open>- 5.0km Easy pace\<close>: the step \<open>5.0km Easy pace\<close> behind the list marker, with no
  Warmup section, no Cooldown section and no Main Set header.
\<close>

theorem easy_run_single_line:
  assumes "w_type w = Run" and "w_duration w = Some (num_of_int 30)"
    and "w_distance w = Some (num_of_int 5)"
    and "w_intensity w = Some ''easy''" and "w_intervals w = None" and "w_description w = []"
  shows "formatWorkoutForIntervalsICU w Map.empty = ''- 5.0km Easy pace''"
proof -
  have "formatWorkoutForIntervalsICU w Map.empty = formatWorkoutForIntervalsICU easy_run Map.empty"
    by (rule formatter_reads) (simp_all add: assms easy_run_def)
  then show ?thesis by (simp only: easy_run_text)
qed

theorem easy_run_single_line_witness:
  "formatWorkoutForIntervalsICU easy_run Map.empty = ''- 5.0km Easy pace''
   \<and> split_lines (formatWorkoutForIntervalsICU easy_run Map.empty) = [''- 5.0km Easy pace'']"
proof -
  have "formatWorkoutForIntervalsICU easy_run Map.empty = ''- 5.0km Easy pace''"
    by (rule easy_run_single_line) (simp_all add: easy_run_def)
  moreover have "split_lines ''- 5.0km Easy pace'' = [''- 5.0km Easy pace'']"
    by code_simp
  ultimately show ?thesis by simp
qed

theorem easy_run_single_line_counterexample:
  "formatWorkoutForIntervalsICU easy_run Map.empty \<noteq> ''5.0km Easy pace''
   \<and> split_lines (formatWorkoutForIntervalsICU easy_run Map.empty) \<noteq> [''5.0km Easy pace'']"
  by code_simp

text \<open>
  C9. The formatter is a function of its two arguments: it reads no clock, no random
  source and no state outside them, so two calls with the same workout and the same
  pace mapping give the same text; and so do two calls whose workouts differ only in
  fields the formatter does not read. The same holds for the text of an interval list.
\<close>

theorem formatter_deterministic:
  "(w = w' \<and> pm = pm' \<longrightarrow>
      formatWorkoutForIntervalsICU w pm = formatWorkoutForIntervalsICU w' pm')
   \<and> (w_type w = w_type w' \<and> w_description w = w_description w'
        \<and> w_duration w = w_duration w' \<and> w_distance w = w_distance w'
        \<and> w_intensity w = w_intensity w' \<and> w_intervals w = w_intervals w' \<and> pm = pm' \<longrightarrow>
      formatWorkoutForIntervalsICU w pm = formatWorkoutForIntervalsICU w' pm')
   \<and> (xs = xs' \<and> wt = wt' \<and> pm = pm' \<longrightarrow>
      formatIntervals xs wt pm = formatIntervals xs' wt' pm')"
  using formatter_reads [of w w' pm'] by blast

theorem formatter_deterministic_witness:
  "formatWorkoutForIntervalsICU easy_run Map.empty
     = formatWorkoutForIntervalsICU (easy_run\<lparr>w_id := ''other'', w_notes := Some ''windy''\<rparr>) Map.empty
   \<and> formatWorkoutForIntervalsICU easy_run Map.empty = ''- 5.0km Easy pace''"
proof -
  note t = formatter_deterministic [of easy_run "easy_run\<lparr>w_id := ''other'', w_notes := Some ''windy''\<rparr>"
      Map.empty Map.empty "[]" "[]" Run Run]
  have "formatWorkoutForIntervalsICU easy_run Map.empty
     = formatWorkoutForIntervalsICU (easy_run\<lparr>w_id := ''other'', w_notes := Some ''windy''\<rparr>) Map.empty"
    by (rule t [THEN conjunct2, THEN conjunct1, THEN mp]) simp
  with easy_run_text show ?thesis by (intro conjI)
qed

subsection \<open>Phases of the description\<close>

lemma formatPhaseText_dash: "\<exists>r. formatPhaseText g pm = ''- '' @ r"
  by (simp add: formatPhaseText_def Let_def split: option.split prod.split)

lemma dashed_iff: "dashed x \<longleftrightarrow> (\<exists>r. x = Some (''- '' @ r))"
  by (cases x) (simp_all add: dashed_def startsWith_iff)

lemma phase_step_warmup_kept: "dashed (warmup ph) \<Longrightarrow> dashed (warmup (phase_step pm ph l))"
  using formatPhaseText_dash by (auto simp: phase_step_def dashed_iff split: option.split)

lemma phase_step_cooldown_kept: "dashed (cooldown ph) \<Longrightarrow> dashed (cooldown (phase_step pm ph l))"
  using formatPhaseText_dash by (auto simp: phase_step_def dashed_iff split: option.split)

lemma phase_step_warmup_set:
  "match_phase warmupPattern l \<noteq> None \<Longrightarrow> dashed (warmup (phase_step pm ph l))"
  using formatPhaseText_dash by (auto simp: phase_step_def dashed_iff split: option.split)

lemma phase_step_cooldown_set:
  "match_phase warmupPattern l = None \<Longrightarrow> match_phase cooldownPattern l \<noteq> None \<Longrightarrow>
   dashed (cooldown (phase_step pm ph l))"
  using formatPhaseText_dash by (auto simp: phase_step_def dashed_iff split: option.split)

lemma phases_warmup_kept:
  "dashed (warmup ph) \<Longrightarrow> dashed (warmup (foldl (phase_step pm) ph ls))"
  by (induction ls arbitrary: ph) (simp_all add: phase_step_warmup_kept)

lemma phases_cooldown_kept:
  "dashed (cooldown ph) \<Longrightarrow> dashed (cooldown (foldl (phase_step pm) ph ls))"
  by (induction ls arbitrary: ph) (simp_all add: phase_step_cooldown_kept)

lemma phases_warmup_found:
  "l \<in> set ls \<Longrightarrow> match_phase warmupPattern l \<noteq> None \<Longrightarrow>
   dashed (warmup (foldl (phase_step pm) ph ls))"
proof (induction ls arbitrary: ph)
  case Nil
  then show ?case by simp
next
  case (Cons x xs)
  show ?case
  proof (cases "l = x")
    case True
    with Cons.prems have "dashed (warmup (phase_step pm ph x))"
      by (simp add: phase_step_warmup_set)
    then show ?thesis by (simp add: phases_warmup_kept)
  next
    case False
    with Cons.prems have "l \<in> set xs" by simp
    with Cons show ?thesis by simp
  qed
qed

lemma phases_cooldown_found:
  "l \<in> set ls \<Longrightarrow> match_phase warmupPattern l = None \<Longrightarrow>
   match_phase cooldownPattern l \<noteq> None \<Longrightarrow>
   dashed (cooldown (foldl (phase_step pm) ph ls))"
proof (induction ls arbitrary: ph)
  case Nil
  then show ?case by simp
next
  case (Cons x xs)
  show ?case
  proof (cases "l = x")
    case True
    with Cons.prems have "dashed (cooldown (phase_step pm ph x))"
      by (simp add: phase_step_cooldown_set)
    then show ?thesis by (simp add: phases_cooldown_kept)
  next
    case False
    with Cons.prems have "l \<in> set xs" by simp
    with Cons show ?thesis by simp
  qed
qed

lemma scenario_lines:
  "trim ''Warmup: 10 minutes easy'' = ''Warmup: 10 minutes easy''"
  "trim ''Cooldown: 5 minutes easy'' = ''Cooldown: 5 minutes easy''"
  "match_phase warmupPattern ''Warmup: 10 minutes easy'' = Some ''10 minutes easy''"
  "match_phase warmupPattern ''Cooldown: 5 minutes easy'' = None"
  "match_phase cooldownPattern ''Cooldown: 5 minutes easy'' = Some ''5 minutes easy''"
  by code_simp+

lemma scenario_phases:
  assumes "''Warmup: 10 minutes easy'' \<in> set (split_lines d)"
    and "''Cooldown: 5 minutes easy'' \<in> set (split_lines d)"
  shows "dashed (warmup (detectWorkoutPhases d pm))"
    and "dashed (cooldown (detectWorkoutPhases d pm))"
proof -
  let ?ls = "filter (\<lambda>l. l \<noteq> []) (map trim (split_lines d))"
  have "trim ''Warmup: 10 minutes easy'' \<in> trim ` set (split_lines d)"
    using assms(1) by (rule imageI)
  then have w: "''Warmup: 10 minutes easy'' \<in> set ?ls"
    by (simp add: scenario_lines)
  have "trim ''Cooldown: 5 minutes easy'' \<in> trim ` set (split_lines d)"
    using assms(2) by (rule imageI)
  then have c: "''Cooldown: 5 minutes easy'' \<in> set ?ls"
    by (simp add: scenario_lines)
  show "dashed (warmup (detectWorkoutPhases d pm))"
    unfolding detectWorkoutPhases_def Let_def
    by (rule phases_warmup_found [OF w]) (simp add: scenario_lines)
  show "dashed (cooldown (detectWorkoutPhases d pm))"
    unfolding detectWorkoutPhases_def Let_def
    by (rule phases_cooldown_found [OF c]) (simp_all add: scenario_lines)
qed

lemma formatIntensity_without_entry:
  "label \<noteq> [] \<Longrightarrow> str_or (pm label) [] = [] \<Longrightarrow>
   formatIntensity label wt pm = formatIntensity_unmapped label wt"
  by (simp add: formatIntensity_def Let_def)

lemma formatIntensity_same_without_entry:
  assumes "label \<noteq> []" and "str_or (pm label) [] = []"
  shows "formatIntensity label wt pm = formatIntensity label wt Map.empty"
proof -
  have "str_or (Map.empty label) [] = []" by (simp add: str_or_def)
  with assms show ?thesis by (simp add: formatIntensity_without_entry)
qed

text \<open>The recovery line of the scenario: the lexicon has \<open>Easy pace\<close> for a run and \<open>Z2\<close>
  for any other type.\<close>

lemma main_set_empty_mapping:
  "formatIntervals [example_interval] wt Map.empty =
     join [newline] [''5x'', ''- 1.0km 5K pace'',
                     ''- 200m '' @ (if wt = Run then ''Easy pace'' else ''Z2'')]"
  by (cases wt; simp only: workout_type.simps if_True if_False; code_simp)

lemma main_set_text:
  assumes "str_or (pm ''5K pace'') [] = []" and "str_or (pm ''Easy'') [] = []"
  shows "formatIntervals [example_interval] wt pm =
     join [newline] [''5x'', ''- 1.0km 5K pace'',
                     ''- 200m '' @ (if wt = Run then ''Easy pace'' else ''Z2'')]"
proof -
  have r: "i_recovery example_interval = Some (num_of_int 200)" "num_truthy (num_of_int 200)"
    by (simp_all add: example_interval_def num_truthy_def num_of_int_def)
  have i1: "formatIntensity (i_intensity example_interval) wt pm
      = formatIntensity (i_intensity example_interval) wt Map.empty"
    unfolding example_interval_def interval.simps
    using assms(1) by (intro formatIntensity_same_without_entry) simp_all
  have i2: "formatIntensity (str_or (i_recoveryIntensity example_interval) ''Easy'') wt pm
      = formatIntensity (str_or (i_recoveryIntensity example_interval) ''Easy'') wt Map.empty"
    unfolding example_interval_def interval.simps str_or_def option.case
    using assms(2) by (simp only: list.simps if_False) (intro formatIntensity_same_without_entry, simp_all add: str_or_def)
  have n: "i_ramp example_interval = None" by (simp add: example_interval_def)
  have w: "formatSingleInterval example_interval wt pm
      = formatSingleInterval example_interval wt Map.empty"
    by (simp only: work_segment_form n option.case i1)
  have c: "formatRecovery example_interval wt pm = formatRecovery example_interval wt Map.empty"
    by (simp only: recovery_segment_form [OF r] i2)
  have "formatIntervals [example_interval] wt pm = formatIntervals [example_interval] wt Map.empty"
    by (simp add: formatIntervals_def interval_lines_def w c)
  then show ?thesis by (simp only: main_set_empty_mapping)
qed

text \<open>The label of a phase text is what the intensity rule is asked for.\<close>

lemma phase_without_label:
  "phase_label text = None \<Longrightarrow> formatPhaseText text pm = ''- '' @ text"
  by (simp add: formatPhaseText_def phase_label_def Let_def split: option.splits prod.splits)

lemma phase_with_label:
  assumes "phase_label text = Some label"
  shows "\<exists>quantity. formatPhaseText text pm
           = ''- '' @ quantity @ '' '' @ formatIntensity label Run pm"
proof (cases "match_quantity time_units False text")
  case None
  with assms obtain matched distance unit
    where d: "match_quantity distance_units True text = Some (matched, distance, unit)"
      and l: "label = str_or (Some (trim (remove_first text matched))) ''Easy''"
    by (auto simp: phase_label_def split: option.splits)
  show ?thesis
    by (intro exI [of _ "if includes_str (toLowerCase unit) ''k'' then distance @ ''km''
                         else distance @ ''m''"])
       (simp add: formatPhaseText_def None d l Let_def)
next
  case (Some t)
  obtain matched duration unit where t: "t = (matched, duration, unit)" by (cases t)
  from assms Some t have l: "label = str_or (Some (trim (remove_first text matched))) ''Easy''"
    by (simp add: phase_label_def)
  show ?thesis
    by (intro exI [of _ "duration @ ''m''"]) (simp add: formatPhaseText_def Some t l Let_def)
qed

lemma trim_dashed: "trim (CHR ''-'' # r) = rev (dropWhile is_space (rev (CHR ''-'' # r)))"
  by (simp add: trim_def is_space_def)

lemma trim_sections:
  assumes "\<not> is_space a"
  shows "trim (a # as @ CHR ''-'' # r @ [newline]) = a # as @ trim (CHR ''-'' # r)"
proof -
  have d: "\<not> is_space (CHR ''-'')" by (simp add: is_space_def)
  have n: "is_space newline" by (simp add: is_space_def newline_def)
  have "dropWhile is_space (rev (a # as @ CHR ''-'' # r @ [newline]))
      = dropWhile is_space (rev (CHR ''-'' # r) @ rev (a # as))"
    using n by simp
  also have "\<dots> = dropWhile is_space (rev (CHR ''-'' # r)) @ rev (a # as)"
    by (rule dropWhile_append1 [of "CHR ''-''"]) (simp_all add: d)
  finally have "rev (dropWhile is_space (rev (a # as @ CHR ''-'' # r @ [newline])))
      = a # as @ rev (dropWhile is_space (rev (CHR ''-'' # r)))"
    by simp
  moreover have "dropWhile is_space (a # as @ CHR ''-'' # r @ [newline])
      = a # as @ CHR ''-'' # r @ [newline]"
    using assms by simp
  ultimately show ?thesis
    unfolding trim_dashed unfolding trim_def by simp
qed

text \<open>
  C5, as amended. For a workout whose intervals are the single interval of the scenario,
  whose description has the lines \<open>Warmup: 10 minutes easy\<close> and
  \<open>Cooldown: 5 minutes easy\<close> and hands plain labels only to the intensity rule, and a
  pace mapping with no entry for the labels \<open>5K pace\<close> and \<open>Easy\<close>, both phases are
  detected and the text is, line by line: the Warmup header and the warmup text, an empty
  line, the Main Set header with the lines \<open>5x\<close>, \<open>- 1.0km 5K pace\<close> and the recovery
  line, an empty line, the Cooldown header and the cooldown text. The recovery line is
  \<open>- 200m Easy pace\<close> for a run and \<open>- 200m Z2\<close> for a workout of any other type.
\<close>

theorem interval_session_sections:
  assumes "w_intervals w = Some [example_interval]"
    and "''Warmup: 10 minutes easy'' \<in> set (split_lines (w_description w))"
    and "''Cooldown: 5 minutes easy'' \<in> set (split_lines (w_description w))"
    and "list_all plain_label (phase_labels (w_description w))"
    and "str_or (pm ''5K pace'') [] = []" and "str_or (pm ''Easy'') [] = []"
  shows "dashed (warmup (detectWorkoutPhases (w_description w) pm))
     \<and> dashed (cooldown (detectWorkoutPhases (w_description w) pm))
     \<and> formatWorkoutForIntervalsICU w pm =
         join [newline]
           [''Warmup'', str_or (warmup (detectWorkoutPhases (w_description w) pm)) [], [],
            ''Main Set'', ''5x'', ''- 1.0km 5K pace'',
            ''- 200m '' @ (if w_type w = Run then ''Easy pace'' else ''Z2''), [],
            ''Cooldown'', trim (str_or (cooldown (detectWorkoutPhases (w_description w) pm)) [])]"
proof -
  define ph where "ph = detectWorkoutPhases (w_description w) pm"
  define rl where "rl = ''- 200m '' @ (if w_type w = Run then ''Easy pace'' else ''Z2'')"
  define main where "main = join [newline] [''5x'', ''- 1.0km 5K pace'', rl]"
  have dw: "dashed (warmup ph)" and dc: "dashed (cooldown ph)"
    unfolding ph_def using assms(2,3) by (rule scenario_phases)+
  from dw obtain rw where rw: "warmup ph = Some (''- '' @ rw)" unfolding dashed_iff by blast
  from dc obtain rc where rc: "cooldown ph = Some (''- '' @ rc)" unfolding dashed_iff by blast
  have sw: "str_or (warmup ph) [] = ''- '' @ rw" by (simp add: rw str_or_def)
  have sc: "str_or (cooldown ph) [] = ''- '' @ rc" by (simp add: rc str_or_def)
  have m: "formatIntervals [example_interval] (w_type w) pm = main"
    unfolding main_def rl_def using assms(5,6) by (rule main_set_text)
  have sec: "sections_of ph [example_interval] (w_type w) pm =
      [''Warmup'', ''- '' @ rw, [], ''Main Set'', main, [], ''Cooldown'', ''- '' @ rc, []]"
    by (simp add: sections_of_def Let_def sw sc m)
  define body where "body = ''armup'' @ [newline] @ ''- '' @ rw @ [newline, newline]
      @ ''Main Set'' @ [newline] @ main @ [newline, newline] @ ''Cooldown'' @ [newline]"
  have j: "join [newline] [''Warmup'', ''- '' @ rw, [], ''Main Set'', main, [], ''Cooldown'', ''- '' @ rc, []]
      = CHR ''W'' # body @ CHR ''-'' # (CHR '' '' # rc) @ [newline]"
    unfolding body_def by simp
  have tr: "trim (CHR ''W'' # body @ CHR ''-'' # (CHR '' '' # rc) @ [newline])
      = CHR ''W'' # body @ trim (CHR ''-'' # (CHR '' '' # rc))"
    by (rule trim_sections) (simp add: is_space_def)
  have fmt: "formatWorkoutForIntervalsICU w pm =
      (let formatted = trim (join [newline] (sections_of ph [example_interval] (w_type w) pm))
       in if formatted = [] then w_description w else formatted)"
    by (simp add: formatWorkoutForIntervalsICU_def assms(1) ph_def Let_def)
  have "formatWorkoutForIntervalsICU w pm = CHR ''W'' # body @ trim (CHR ''-'' # (CHR '' '' # rc))"
    unfolding fmt sec j tr by (simp add: Let_def)
  also have "\<dots> = join [newline]
           [''Warmup'', ''- '' @ rw, [], ''Main Set'', ''5x'', ''- 1.0km 5K pace'',
            rl, [], ''Cooldown'', trim (''- '' @ rc)]"
    unfolding body_def main_def by simp
  finally show ?thesis using dw dc unfolding ph_def [symmetric] sw sc rl_def by simp
qed

lemma interval_session_run_text:
  "split_lines (formatWorkoutForIntervalsICU (interval_session Run) Map.empty) =
     [''Warmup'', ''- 10m utes easy'', [], ''Main Set'', ''5x'', ''- 1.0km 5K pace'',
      ''- 200m Easy pace'', [], ''Cooldown'', ''- 5m utes easy'']"
  by code_simp

lemma interval_session_bike_text:
  "split_lines (formatWorkoutForIntervalsICU (interval_session Bike) Map.empty) =
     [''Warmup'', ''- 10m utes easy'', [], ''Main Set'', ''5x'', ''- 1.0km 5K pace'',
      ''- 200m Z2'', [], ''Cooldown'', ''- 5m utes easy'']"
  by code_simp

lemma interval_session_lines:
  "''Warmup: 10 minutes easy'' \<in> set (split_lines (w_description (interval_session t)))"
  "''Cooldown: 5 minutes easy'' \<in> set (split_lines (w_description (interval_session t)))"
  "phase_labels (w_description (interval_session t)) = [''utes easy'', ''utes easy'']"
  "list_all plain_label [''utes easy'', ''utes easy'']"
  unfolding interval_session_def workout.simps by code_simp+

theorem interval_session_sections_witness:
  "dashed (warmup (detectWorkoutPhases (w_description (interval_session Run)) Map.empty))
   \<and> formatWorkoutForIntervalsICU (interval_session Run) Map.empty =
         join [newline]
           [''Warmup'',
            str_or (warmup (detectWorkoutPhases (w_description (interval_session Run)) Map.empty)) [],
            [], ''Main Set'', ''5x'', ''- 1.0km 5K pace'', ''- 200m Easy pace'', [], ''Cooldown'',
            trim (str_or (cooldown (detectWorkoutPhases (w_description (interval_session Run)) Map.empty)) [])]
   \<and> split_lines (formatWorkoutForIntervalsICU (interval_session Run) Map.empty) =
         [''Warmup'', ''- 10m utes easy'', [], ''Main Set'', ''5x'', ''- 1.0km 5K pace'',
          ''- 200m Easy pace'', [], ''Cooldown'', ''- 5m utes easy'']
   \<and> formatWorkoutForIntervalsICU (interval_session Bike) Map.empty =
         join [newline]
           [''Warmup'',
            str_or (warmup (detectWorkoutPhases (w_description (interval_session Bike)) Map.empty)) [],
            [], ''Main Set'', ''5x'', ''- 1.0km 5K pace'', ''- 200m Z2'', [], ''Cooldown'',
            trim (str_or (cooldown (detectWorkoutPhases (w_description (interval_session Bike)) Map.empty)) [])]"
proof -
  have e: "str_or (Map.empty ''5K pace'') [] = []" "str_or (Map.empty ''Easy'') [] = []"
    by (simp_all add: str_or_def)
  have t: "w_intervals (interval_session ty) = Some [example_interval]" for ty
    by (simp add: interval_session_def)
  have p: "list_all plain_label (phase_labels (w_description (interval_session ty)))" for ty
    by (simp only: interval_session_lines(3,4))
  have ty: "w_type (interval_session Run) = Run" "w_type (interval_session Bike) \<noteq> Run"
    by (simp_all add: interval_session_def)
  note r = interval_session_sections [OF t interval_session_lines(1,2) p e, of Run]
  note b = interval_session_sections [OF t interval_session_lines(1,2) p e, of Bike]
  from r b interval_session_run_text ty show ?thesis by simp
qed

theorem interval_session_sections_counterexample:
  "w_intervals (interval_session Bike) = Some [example_interval]
   \<and> ''Warmup: 10 minutes easy'' \<in> set (split_lines (w_description (interval_session Bike)))
   \<and> ''Cooldown: 5 minutes easy'' \<in> set (split_lines (w_description (interval_session Bike)))
   \<and> split_lines (formatWorkoutForIntervalsICU (interval_session Bike) Map.empty) =
         [''Warmup'', ''- 10m utes easy'', [], ''Main Set'', ''5x'', ''- 1.0km 5K pace'',
          ''- 200m Z2'', [], ''Cooldown'', ''- 5m utes easy'']
   \<and> ''- 200m Easy pace'' \<notin> set (split_lines (formatWorkoutForIntervalsICU (interval_session Bike) Map.empty))"
  by code_simp

section \<open>Properties of the validator\<close>

lemma workout_errors_table:
  "errors (validateWorkout dp w) = violated (workout_rules dp w)"
  by (cases "pw_duration w"; cases "pw_distance w")
     (simp_all add: validateWorkout_def workout_rules_def violated_def Let_def)

lemma workout_valid_iff: "valid (validateWorkout dp w) \<longleftrightarrow> errors (validateWorkout dp w) = []"
  by (simp add: validateWorkout_def Let_def)

lemma workout_entries_table:
  "workout_entries dp i ws = concat (map (\<lambda>(j, w). workout_entry dp j w) (enumerate i ws))"
  by (induction ws arbitrary: i)
     (simp_all add: workout_entry_def workout_valid_iff workout_errors_table Let_def)

lemma plan_errors_table:
  "errors (validateTrainingPlan dp p) =
     violated (plan_rules dp p)
     @ concat (map (\<lambda>(i, w). workout_entry dp i w) (enumerate 0 (workouts_of p)))"
proof -
  have d: "(if \<not> missing (pp_startDate p) \<and> \<not> missing (pp_endDate p)
                    \<and> isValidISODate dp (str_or (pp_startDate p) [])
                    \<and> isValidISODate dp (str_or (pp_endDate p) [])
               then (case (dp (str_or (pp_startDate p) []), dp (str_or (pp_endDate p) [])) of
                       (Some start, Some end) \<Rightarrow>
                         if end \<le> start then [''End date must be after start date''] else []
                     | _ \<Rightarrow> [])
               else [])
      = violated [(ends_before_start dp (pp_startDate p) (pp_endDate p),
         ''End date must be after start date'')]"
    by (cases "pp_startDate p"; cases "pp_endDate p")
       (auto simp: violated_def missing_def str_or_def isValidISODate_def iso8601Regex_def
          ends_before_start_def split: option.splits)
  have w: "(case pp_workouts p of None \<Rightarrow> [] | Some ws \<Rightarrow> workout_entries dp 0 ws)
      = concat (map (\<lambda>(i, w). workout_entry dp i w) (enumerate 0 (workouts_of p)))"
    by (cases "pp_workouts p") (simp_all add: workouts_of_def workout_entries_table)
  have "errors (validateTrainingPlan dp p) =
      violated [(missing (pp_id p), ''Plan ID is required'')]
      @ violated [(missing (pp_name p), ''Plan name is required'')]
      @ violated [(missing (pp_startDate p), ''Start date is required''),
           (\<not> missing (pp_startDate p) \<and> \<not> isValidISODate dp (str_or (pp_startDate p) []),
            ''Invalid start date format'')]
      @ violated [(missing (pp_endDate p), ''End date is required''),
           (\<not> missing (pp_endDate p) \<and> \<not> isValidISODate dp (str_or (pp_endDate p) []),
            ''Invalid end date format'')]
      @ violated [(pp_workouts p = None, ''Workouts array is required''),
           (pp_workouts p = Some [], ''Plan must have at least one workout'')]
      @ violated [(ends_before_start dp (pp_startDate p) (pp_endDate p),
         ''End date must be after start date'')]
      @ concat (map (\<lambda>(i, w). workout_entry dp i w) (enumerate 0 (workouts_of p)))"
    unfolding validateTrainingPlan_def Let_def validation.simps d w
    by (cases "pp_workouts p") (simp_all add: violated_def)
  also have "\<dots> = violated (plan_rules dp p)
     @ concat (map (\<lambda>(i, w). workout_entry dp i w) (enumerate 0 (workouts_of p)))"
    by (simp add: violated_def plan_rules_def)
  finally show ?thesis .
qed

lemma plan_valid_iff:
  "valid (validateTrainingPlan dp p) \<longleftrightarrow> errors (validateTrainingPlan dp p) = []"
  by (simp add: validateTrainingPlan_def Let_def)

text \<open>
  C7, as amended. A plan passes exactly when its error list is empty. The list holds the
  message of every violated plan rule, in validation order, and then one entry for every
  invalid workout: the messages of all the workout rules it violates, joined by a comma
  and a space behind \<open>Workout n:\<close> with n its position counted from 1. No rule hides
  another. A workout validated alone has one message for each rule it violates.
\<close>

theorem validation_reports_all:
  "(valid (validateTrainingPlan dp p) \<longleftrightarrow> errors (validateTrainingPlan dp p) = [])
   \<and> errors (validateTrainingPlan dp p) =
       violated (plan_rules dp p)
       @ concat (map (\<lambda>(i, w). workout_entry dp i w) (enumerate 0 (workouts_of p)))
   \<and> (valid (validateWorkout dp w) \<longleftrightarrow> errors (validateWorkout dp w) = [])
   \<and> errors (validateWorkout dp w) = violated (workout_rules dp w)"
  using plan_valid_iff plan_errors_table workout_valid_iff workout_errors_table
  by (intro conjI)

lemma one_day_plan_errors:
  "errors (validateTrainingPlan utc_date_parse one_day_plan) =
     [''End date must be after start date'',
      ''Workout 1: Workout name is required, Workout description is required'']"
  "errors (validateWorkout utc_date_parse nameless_workout) =
     [''Workout name is required'', ''Workout description is required'']"
  "violated (plan_rules utc_date_parse one_day_plan) = [''End date must be after start date'']"
  "violated (workout_rules utc_date_parse nameless_workout) =
     [''Workout name is required'', ''Workout description is required'']"
  "enumerate 0 (workouts_of one_day_plan) = [(0, nameless_workout)]"
  by code_simp+

theorem validation_reports_all_witness:
  "errors (validateTrainingPlan utc_date_parse one_day_plan) =
     [''End date must be after start date'']
     @ concat (map (\<lambda>(i, w). workout_entry utc_date_parse i w) [(0, nameless_workout)])
   \<and> errors (validateWorkout utc_date_parse nameless_workout) =
     [''Workout name is required'', ''Workout description is required'']
   \<and> errors (validateTrainingPlan utc_date_parse one_day_plan) =
     [''End date must be after start date'',
      ''Workout 1: Workout name is required, Workout description is required'']"
proof -
  note t = validation_reports_all [of utc_date_parse one_day_plan nameless_workout]
  have "errors (validateTrainingPlan utc_date_parse one_day_plan) =
     [''End date must be after start date'']
     @ concat (map (\<lambda>(i, w). workout_entry utc_date_parse i w) [(0, nameless_workout)])"
    using t [THEN conjunct2, THEN conjunct1] by (simp only: one_day_plan_errors(3,5))
  moreover have "errors (validateWorkout utc_date_parse nameless_workout) =
     [''Workout name is required'', ''Workout description is required'']"
    using t [THEN conjunct2, THEN conjunct2, THEN conjunct2] by (simp only: one_day_plan_errors(4))
  ultimately show ?thesis using one_day_plan_errors(1) by (intro conjI)
qed

theorem validation_reports_all_counterexample:
  "errors (validateWorkout utc_date_parse nameless_workout) =
     [''Workout name is required'', ''Workout description is required'']
   \<and> pp_workouts one_day_plan = Some [nameless_workout]
   \<and> errors (validateTrainingPlan utc_date_parse one_day_plan) =
     [''End date must be after start date'',
      ''Workout 1: Workout name is required, Workout description is required'']
   \<and> ''Workout 1: Workout name is required'' \<notin> set (errors (validateTrainingPlan utc_date_parse one_day_plan))
   \<and> ''Workout 1: Workout description is required'' \<notin> set (errors (validateTrainingPlan utc_date_parse one_day_plan))"
  by code_simp

lemma iso_date_nonempty: "iso8601Regex d \<Longrightarrow> d \<noteq> []"
  by (auto simp: iso8601Regex_def)

text \<open>
  C8. A plan whose start date and end date are the same valid date fails validation, and
  its error list has the entry \<open>End date must be after start date\<close>.
\<close>

theorem equal_dates_rejected:
  assumes "pp_startDate p = Some d" and "pp_endDate p = Some d" and "isValidISODate dp d"
  shows "\<not> valid (validateTrainingPlan dp p)
     \<and> ''End date must be after start date'' \<in> set (errors (validateTrainingPlan dp p))"
proof -
  from assms(3) obtain t where t: "dp d = Some t"
    by (auto simp: isValidISODate_def split: if_splits)
  have "ends_before_start dp (pp_startDate p) (pp_endDate p)"
    using assms t by (simp add: ends_before_start_def)
  then have "''End date must be after start date'' \<in> set (violated (plan_rules dp p))"
    by (simp add: violated_def plan_rules_def)
  then have m: "''End date must be after start date'' \<in> set (errors (validateTrainingPlan dp p))"
    by (simp add: plan_errors_table)
  then have "errors (validateTrainingPlan dp p) \<noteq> []" by auto
  with m show ?thesis by (simp add: plan_valid_iff)
qed

lemma one_day_plan_dates:
  "pp_startDate one_day_plan = Some ''2024-05-01''"
  "pp_endDate one_day_plan = Some ''2024-05-01''"
  "isValidISODate utc_date_parse ''2024-05-01''"
  "utc_date_parse ''2024-05-01'' = Some 1714521600000"
  by code_simp+

theorem equal_dates_rejected_witness:
  "\<not> valid (validateTrainingPlan utc_date_parse one_day_plan)
   \<and> ''End date must be after start date''
       \<in> set (errors (validateTrainingPlan utc_date_parse one_day_plan))"
  by (rule equal_dates_rejected [OF one_day_plan_dates(1,2,3)])

section \<open>Properties of the upload orchestrator\<close>

lemma upload_loop_succeeded:
  "succeeded (fst (upload_loop service config op n i ws (r, log))) =
     succeeded r
     + length (filter (\<lambda>(w, x). \<not> is_failure x)
         (map (\<lambda>(j, w). (w, uploadSingleWorkout service j w config)) (enumerate i ws)))"
  by (induction ws arbitrary: i r log)
     (simp_all add: Let_def is_failure_def split: api_result.split)

lemma upload_loop_failed:
  "failed (fst (upload_loop service config op n i ws (r, log))) =
     failed r
     + failure_count (map (\<lambda>(j, w). (w, uploadSingleWorkout service j w config)) (enumerate i ws))"
  by (induction ws arbitrary: i r log)
     (simp_all add: Let_def is_failure_def failure_count_def split: api_result.split)

lemma upload_loop_errors:
  "upload_errors (fst (upload_loop service config op n i ws (r, log))) =
     upload_errors r
     @ failure_lines (map (\<lambda>(j, w). (w, uploadSingleWorkout service j w config)) (enumerate i ws))"
  by (induction ws arbitrary: i r log)
     (simp_all add: Let_def failure_lines_def split: api_result.split)

lemma failure_lines_length: "length (failure_lines as) = failure_count as"
  by (induction as)
     (auto simp: failure_lines_def failure_count_def is_failure_def split: api_result.split)

lemma successes_and_failures:
  "length (filter (\<lambda>(w, x). \<not> is_failure x) as) = length as - failure_count as"
  using sum_length_filter_compl [of "\<lambda>p. is_failure (snd p)" as]
  by (simp add: failure_count_def case_prod_unfold)

lemma upload_tally:
  "fst (upload_loop service config op n 0 ws (\<lparr>succeeded = 0, failed = 0, upload_errors = []\<rparr>, [])) =
     \<lparr>succeeded = length ws - failure_count (attempts service config ws),
      failed = failure_count (attempts service config ws),
      upload_errors = failure_lines (attempts service config ws)\<rparr>"
proof (rule upload_results.equality)
  let ?t = "fst (upload_loop service config op n 0 ws
                  (\<lparr>succeeded = 0, failed = 0, upload_errors = []\<rparr>, []))"
  have "succeeded ?t = length (filter (\<lambda>(w, x). \<not> is_failure x) (attempts service config ws))"
    by (simp only: upload_loop_succeeded attempts_def upload_results.simps add_0)
  also have "\<dots> = length (attempts service config ws) - failure_count (attempts service config ws)"
    by (rule successes_and_failures)
  also have "length (attempts service config ws) = length ws"
    by (simp add: attempts_def)
  finally show "succeeded ?t =
      succeeded \<lparr>succeeded = length ws - failure_count (attempts service config ws),
        failed = failure_count (attempts service config ws),
        upload_errors = failure_lines (attempts service config ws)\<rparr>"
    by simp
  show "failed ?t =
      failed \<lparr>succeeded = length ws - failure_count (attempts service config ws),
        failed = failure_count (attempts service config ws),
        upload_errors = failure_lines (attempts service config ws)\<rparr>"
    by (simp only: upload_loop_failed attempts_def upload_results.simps add_0)
  show "upload_errors ?t =
      upload_errors \<lparr>succeeded = length ws - failure_count (attempts service config ws),
        failed = failure_count (attempts service config ws),
        upload_errors = failure_lines (attempts service config ws)\<rparr>"
    by (simp only: upload_loop_errors attempts_def upload_results.simps append_Nil)
  show "upload_results.more ?t =
      upload_results.more \<lparr>succeeded = length ws - failure_count (attempts service config ws),
        failed = failure_count (attempts service config ws),
        upload_errors = failure_lines (attempts service config ws)\<rparr>"
    by simp
qed

text \<open>
  C1. With N workouts of which K uploads fail, the loop ends with succeeded = N - K,
  failed = K and the K lines \<open>name (date): message\<close> of the failed workouts, in order. The
  call is a success exactly when K = 0, and then returns these counts; otherwise it is a
  failure whose message states the two counts and the lines joined by a semicolon.
\<close>

theorem upload_batch_tally:
  fixes service :: remote and plan :: training_plan and config :: icu_config
  defines "N \<equiv> length (tp_workouts plan)"
    and "as \<equiv> attempts service config (tp_workouts plan)"
    and "K \<equiv> failure_count (attempts service config (tp_workouts plan))"
  shows "fst (upload_loop service config op N 0 (tp_workouts plan)
                (\<lparr>succeeded = 0, failed = 0, upload_errors = []\<rparr>, []))
           = \<lparr>succeeded = N - K, failed = K, upload_errors = failure_lines as\<rparr>
     \<and> length (failure_lines as) = K
     \<and> fst (uploadWorkoutPlan service plan config op) =
         (if K = 0 then Success \<lparr>succeeded = N, failed = 0, upload_errors = []\<rparr>
          else Failure (''Uploaded '' @ num_str (int (N - K)) @ '' workouts, ''
                 @ num_str (int K) @ '' failed. Errors: '' @ join ''; '' (failure_lines as)))
     \<and> ((\<exists>r. fst (uploadWorkoutPlan service plan config op) = Success r) \<longleftrightarrow> K = 0)"
proof -
  have t: "fst (upload_loop service config op N 0 (tp_workouts plan)
                (\<lparr>succeeded = 0, failed = 0, upload_errors = []\<rparr>, []))
           = \<lparr>succeeded = N - K, failed = K, upload_errors = failure_lines as\<rparr>"
    unfolding N_def K_def as_def by (rule upload_tally)
  have l: "length (failure_lines as) = K"
    unfolding K_def as_def by (rule failure_lines_length)
  have e: "K = 0 \<Longrightarrow> failure_lines as = []"
    using l by simp
  have u: "fst (uploadWorkoutPlan service plan config op) =
         (if K = 0 then Success \<lparr>succeeded = N, failed = 0, upload_errors = []\<rparr>
          else Failure (''Uploaded '' @ num_str (int (N - K)) @ '' workouts, ''
                 @ num_str (int K) @ '' failed. Errors: '' @ join ''; '' (failure_lines as)))"
    using t e unfolding uploadWorkoutPlan_def N_def [symmetric]
    by (cases "upload_loop service config op N 0 (tp_workouts plan)
                (\<lparr>succeeded = 0, failed = 0, upload_errors = []\<rparr>, [])")
       (simp add: Let_def)
  from t l u show ?thesis by simp
qed

lemma flaky_batch:
  "fst (uploadWorkoutPlan flaky_service three_workouts key_only True) =
     Failure (''Uploaded 1 workouts, 2 failed. Errors: ''
        @ ''5 x 1 km (2024-05-02): Bad request; Easy run (2024-05-01): Unknown error occurred'')"
  "failure_count (attempts flaky_service key_only (tp_workouts three_workouts)) = 2"
  "length (tp_workouts three_workouts) = 3"
  "failure_lines (attempts flaky_service key_only (tp_workouts three_workouts)) =
     [''5 x 1 km (2024-05-02): Bad request'', ''Easy run (2024-05-01): Unknown error occurred'']"
  "snd (uploadWorkoutPlan flaky_service three_workouts key_only True) =
     [Progress 1 3, Wait 200, Progress 2 3, Wait 200, Progress 3 3]"
  "fst (uploadWorkoutPlan steady_service three_workouts key_only False) =
     Success \<lparr>succeeded = 3, failed = 0, upload_errors = []\<rparr>"
  by code_simp+

theorem upload_batch_tally_witness:
  "fst (upload_loop flaky_service key_only True 3 0 (tp_workouts three_workouts)
          (\<lparr>succeeded = 0, failed = 0, upload_errors = []\<rparr>, []))
     = \<lparr>succeeded = 1, failed = 2,
        upload_errors = [''5 x 1 km (2024-05-02): Bad request'',
                         ''Easy run (2024-05-01): Unknown error occurred'']\<rparr>
   \<and> fst (uploadWorkoutPlan flaky_service three_workouts key_only True) =
       Failure (''Uploaded 1 workouts, 2 failed. Errors: ''
        @ ''5 x 1 km (2024-05-02): Bad request; Easy run (2024-05-01): Unknown error occurred'')"
proof -
  note t = upload_batch_tally [where service = flaky_service and plan = three_workouts
      and config = key_only and op = True]
  have "fst (upload_loop flaky_service key_only True 3 0 (tp_workouts three_workouts)
          (\<lparr>succeeded = 0, failed = 0, upload_errors = []\<rparr>, []))
     = \<lparr>succeeded = 3 - 2, failed = 2,
        upload_errors = [''5 x 1 km (2024-05-02): Bad request'',
                         ''Easy run (2024-05-01): Unknown error occurred'']\<rparr>"
    using t [THEN conjunct1] by (simp only: flaky_batch)
  then show ?thesis using flaky_batch(1) by simp
qed

text \<open>
  C10. The event built for a workout whose interval list is absent or empty carries the
  description of the workout as it is; the event of a workout with intervals carries the
  text of the formatter, called with the empty pace mapping. That event is what the
  request to the service holds.
\<close>

theorem api_description:
  "((w_intervals w = None \<or> w_intervals w = Some []) \<longrightarrow>
      ev_description (formatWorkoutForAPI w) = w_description w)
   \<and> (w_intervals w \<noteq> None \<and> w_intervals w \<noteq> Some [] \<longrightarrow>
      ev_description (formatWorkoutForAPI w) = formatWorkoutForIntervalsICU w Map.empty)
   \<and> (service n (str_or (athleteId config) ''0'', apiKey config, formatWorkoutForAPI w)
        = service' n (str_or (athleteId config) ''0'', apiKey config, formatWorkoutForAPI w) \<longrightarrow>
      uploadSingleWorkout service n w config = uploadSingleWorkout service' n w config)"
  by (auto simp: formatWorkoutForAPI_def uploadSingleWorkout_def Let_def
      split: option.split list.split)

lemma described_run_texts:
  "w_intervals described_run = None"
  "w_description described_run = ''Easy 5k along the river''"
  "formatWorkoutForIntervalsICU described_run Map.empty = ''- 5.0km Easy pace''"
  "w_intervals (interval_session Run) \<noteq> None \<and> w_intervals (interval_session Run) \<noteq> Some []"
  by code_simp+

theorem api_description_witness:
  "ev_description (formatWorkoutForAPI described_run) = ''Easy 5k along the river''
   \<and> formatWorkoutForIntervalsICU described_run Map.empty = ''- 5.0km Easy pace''
   \<and> ev_description (formatWorkoutForAPI (interval_session Run))
       = formatWorkoutForIntervalsICU (interval_session Run) Map.empty
   \<and> uploadSingleWorkout flaky_service 0 described_run key_only
       = uploadSingleWorkout steady_service 0 described_run key_only"
proof -
  note t = api_description [of described_run flaky_service 0 key_only steady_service]
  have "ev_description (formatWorkoutForAPI described_run) = w_description described_run"
    using t described_run_texts(1) by blast
  moreover have "ev_description (formatWorkoutForAPI (interval_session Run))
       = formatWorkoutForIntervalsICU (interval_session Run) Map.empty"
    using api_description [of "interval_session Run" flaky_service 0 key_only flaky_service]
      described_run_texts(4) by blast
  moreover have "flaky_service 0 (str_or (athleteId key_only) ''0'', apiKey key_only,
        formatWorkoutForAPI described_run)
      = steady_service 0 (str_or (athleteId key_only) ''0'', apiKey key_only,
        formatWorkoutForAPI described_run)"
    by (simp add: flaky_service_def steady_service_def)
  then have "uploadSingleWorkout flaky_service 0 described_run key_only
       = uploadSingleWorkout steady_service 0 described_run key_only"
    using t by blast
  ultimately show ?thesis using described_run_texts(2,3) by simp
qed

section \<open>Properties of the direct JSON import\<close>

lemma workout_type_of_valid: "workout_type_of t \<noteq> None \<longleftrightarrow> t \<in> set validTypes"
  by (auto simp: workout_type_of_def validTypes_def)

lemma validateWorkout_json_ok:
  "(\<exists>w. validateWorkout_json j i = Inr w) \<longleftrightarrow> importable_workout j"
proof (cases "properties j")
  case None
  then show ?thesis by (auto simp: validateWorkout_json_def importable_workout_def Let_def)
next
  case (Some w)
  show ?thesis
  proof (cases "string_field w ''date''")
    case None
    with Some show ?thesis by (auto simp: validateWorkout_json_def importable_workout_def Let_def)
  next
    case d: (Some date)
    show ?thesis
    proof (cases "string_field w ''type''")
      case None
      with Some d show ?thesis by (auto simp: validateWorkout_json_def importable_workout_def Let_def)
    next
      case t: (Some type)
      show ?thesis
      proof (cases "string_field w ''name''")
        case None
        with Some d t show ?thesis
          by (auto simp: validateWorkout_json_def importable_workout_def Let_def split: option.split)
      next
        case n: (Some name)
        show ?thesis
        proof (cases "workout_type_of type")
          case None
          then have "type \<notin> set validTypes" using workout_type_of_valid [of type] by simp
          with None Some d t n show ?thesis
            by (auto simp: validateWorkout_json_def importable_workout_def Let_def)
        next
          case wt: (Some workoutType)
          then have "type \<in> set validTypes" using workout_type_of_valid [of type] by simp
          with wt Some d t n show ?thesis
            by (cases "string_field w ''intensity''")
               (auto simp: validateWorkout_json_def importable_workout_def Let_def)
        qed
      qed
    qed
  qed
qed

lemma validate_workouts_ok:
  "(\<exists>ws. validate_workouts ids i xs = Inr ws) \<longleftrightarrow> list_all importable_workout xs"
proof (induction xs arbitrary: i)
  case Nil
  show ?case by simp
next
  case (Cons x xs)
  show ?case
  proof (cases "validateWorkout_json x i")
    case (Inl e)
    then have "\<not> importable_workout x" using validateWorkout_json_ok [of x i] by simp
    with Inl show ?thesis by simp
  next
    case (Inr w)
    then have "importable_workout x" using validateWorkout_json_ok [of x i] by auto
    with Inr Cons.IH [of "Suc i"] show ?thesis
      by (cases "validate_workouts ids (Suc i) xs") auto
  qed
qed

lemma plan_import_ok:
  "(\<exists>plan. validateTrainingPlanJSON ids pid dp j = Inr plan
        \<and> ip_startDate plan = s \<and> ip_endDate plan = e)
   \<longleftrightarrow> importable_plan j s e"
proof (cases "properties j")
  case None
  then show ?thesis by (simp add: validateTrainingPlanJSON_def importable_plan_def)
next
  case (Some obj)
  show ?thesis
  proof (cases "string_field obj ''name''")
    case None
    with Some show ?thesis by (simp add: validateTrainingPlanJSON_def importable_plan_def)
  next
    case n: (Some name)
    show ?thesis
    proof (cases "string_field obj ''startDate''")
      case None
      with Some n show ?thesis by (simp add: validateTrainingPlanJSON_def importable_plan_def)
    next
      case sd: (Some startDate)
      show ?thesis
      proof (cases "string_field obj ''endDate''")
        case None
        with Some n sd show ?thesis
          by (simp add: validateTrainingPlanJSON_def importable_plan_def)
      next
        case ed: (Some endDate)
        show ?thesis
        proof (cases "\<exists>workouts. obj ''workouts'' = Some (JArr workouts)")
          case False
          with Some n sd ed show ?thesis
            by (auto simp: validateTrainingPlanJSON_def importable_plan_def
                split: option.split json.split)
        next
          case True
          then obtain workouts where ws: "obj ''workouts'' = Some (JArr workouts)" by blast
          show ?thesis
          proof (cases "validate_workouts ids 0 workouts")
            case (Inl err)
            then have "\<not> list_all importable_workout workouts"
              using validate_workouts_ok [of ids 0 workouts] by simp
            with Inl Some n sd ed ws show ?thesis
              by (auto simp: validateTrainingPlanJSON_def importable_plan_def)
          next
            case (Inr vs)
            then have "list_all importable_workout workouts"
              using validate_workouts_ok [of ids 0 workouts] by auto
            with Inr Some n sd ed ws show ?thesis
              by (auto simp: validateTrainingPlanJSON_def importable_plan_def)
          qed
        qed
      qed
    qed
  qed
qed

lemma imported_weeks:
  "validateTrainingPlanJSON ids pid dp j = Inr plan \<Longrightarrow>
   ip_weeks plan = calculateWeeks dp (ip_startDate plan) (ip_endDate plan)"
  by (auto simp: validateTrainingPlanJSON_def
      split: option.splits json.splits sum.splits if_splits)

lemma weeks_either_way: "calculateWeeks dp s e = calculateWeeks dp e s"
  by (simp add: calculateWeeks_def abs_minus_commute split: option.split)

text \<open>
  C6, as amended. The direct JSON import checks the shape of the file and nothing about
  the order of its dates: a plan is imported, with the start and end date it gives,
  exactly when it is an object with a name, a start date and an end date in the form
  YYYY-MM-DD and a non-empty array of workouts that each have a date of that form, one of
  the five types, a name and, when the intensity is a text that is not empty, one of the
  four intensities. The weeks of the imported plan are those between its two dates, in
  whichever order they come. A file of type JSON and of at most 5 MB that holds such a
  plan is imported.
\<close>

theorem json_import_checks_shape_only:
  "((\<exists>plan. validateTrainingPlanJSON ids pid dp j = Inr plan
        \<and> ip_startDate plan = s \<and> ip_endDate plan = e)
     \<longleftrightarrow> importable_plan j s e)
   \<and> (validateTrainingPlanJSON ids pid dp j = Inr plan \<longrightarrow>
        ip_weeks plan = calculateWeeks dp (ip_startDate plan) (ip_endDate plan))
   \<and> calculateWeeks dp s e = calculateWeeks dp e s
   \<and> (importable_plan j s e \<and> validateJSONFile file = None \<and> f_content file = Parsed j \<longrightarrow>
        (\<exists>imported. processJSONFile ids pid dp file = Success imported
           \<and> ip_startDate imported = s \<and> ip_endDate imported = e
           \<and> ip_weeks imported = calculateWeeks dp s e))"
proof (intro conjI impI)
  show "(\<exists>plan. validateTrainingPlanJSON ids pid dp j = Inr plan
        \<and> ip_startDate plan = s \<and> ip_endDate plan = e)
     \<longleftrightarrow> importable_plan j s e"
    by (rule plan_import_ok)
next
  assume "validateTrainingPlanJSON ids pid dp j = Inr plan"
  then show "ip_weeks plan = calculateWeeks dp (ip_startDate plan) (ip_endDate plan)"
    by (rule imported_weeks)
next
  show "calculateWeeks dp s e = calculateWeeks dp e s"
    by (rule weeks_either_way)
next
  assume a: "importable_plan j s e \<and> validateJSONFile file = None \<and> f_content file = Parsed j"
  then obtain p where p: "validateTrainingPlanJSON ids pid dp j = Inr p"
    and "ip_startDate p = s" and "ip_endDate p = e"
    using plan_import_ok [of ids pid dp j s e] by blast
  moreover from p have "ip_weeks p = calculateWeeks dp (ip_startDate p) (ip_endDate p)"
    by (rule imported_weeks)
  ultimately show "\<exists>imported. processJSONFile ids pid dp file = Success imported
           \<and> ip_startDate imported = s \<and> ip_endDate imported = e
           \<and> ip_weeks imported = calculateWeeks dp s e"
    using a by (simp add: processJSONFile_def)
qed

lemma backwards_plan_imported:
  "validateTrainingPlanJSON counting_ids ''plan_1'' utc_date_parse backwards_plan
     = Inr backwards_import"
  "processJSONFile counting_ids ''plan_1'' utc_date_parse backwards_file
     = Success (backwards_import\<lparr>ip_source := ''spring.json''\<rparr>)"
  "ip_startDate backwards_import = ''2024-05-10''"
  "ip_endDate backwards_import = ''2024-05-01''"
  "utc_date_parse ''2024-05-10'' = Some 1715299200000"
  "utc_date_parse ''2024-05-01'' = Some 1714521600000"
  "isValidISODate utc_date_parse ''2024-05-10'' \<and> isValidISODate utc_date_parse ''2024-05-01''"
  "validateJSONFile backwards_file = None"
  "f_content backwards_file = Parsed backwards_plan"
  "ip_weeks backwards_import = Some 2"
  "calculateWeeks utc_date_parse ''2024-05-10'' ''2024-05-01'' = Some 2"
  by code_simp+

lemma unchecked_intensities_imported:
  "(case validateTrainingPlanJSON counting_ids ''plan_1'' utc_date_parse unchecked_intensities of
      Inr plan \<Rightarrow>
        ip_startDate plan = ''2024-05-01'' \<and> ip_endDate plan = ''2024-05-10''
        \<and> map iw_intensity (ip_workouts plan) = [Some (JStr []), Some (JNum (num_of_int 7))]
    | Inl error \<Rightarrow> False)"
  by code_simp

theorem json_import_checks_shape_only_witness:
  "importable_plan backwards_plan ''2024-05-10'' ''2024-05-01''
   \<and> importable_plan unchecked_intensities ''2024-05-01'' ''2024-05-10''
   \<and> ip_weeks backwards_import = calculateWeeks utc_date_parse ''2024-05-10'' ''2024-05-01''
   \<and> (\<exists>imported. processJSONFile counting_ids ''plan_1'' utc_date_parse backwards_file
           = Success imported
         \<and> ip_startDate imported = ''2024-05-10'' \<and> ip_endDate imported = ''2024-05-01''
         \<and> ip_weeks imported = Some 2)"
proof -
  note t = json_import_checks_shape_only [of counting_ids "''plan_1''" utc_date_parse
      backwards_plan "''2024-05-10''" "''2024-05-01''" backwards_import backwards_file]
  note u = json_import_checks_shape_only [of counting_ids "''plan_1''" utc_date_parse
      unchecked_intensities "''2024-05-01''" "''2024-05-10''" backwards_import backwards_file]
  have "\<exists>plan. validateTrainingPlanJSON counting_ids ''plan_1'' utc_date_parse backwards_plan
           = Inr plan \<and> ip_startDate plan = ''2024-05-10'' \<and> ip_endDate plan = ''2024-05-01''"
    using backwards_plan_imported(1,3,4) by blast
  with t have i: "importable_plan backwards_plan ''2024-05-10'' ''2024-05-01''" by blast
  have "\<exists>plan. validateTrainingPlanJSON counting_ids ''plan_1'' utc_date_parse
           unchecked_intensities = Inr plan
         \<and> ip_startDate plan = ''2024-05-01'' \<and> ip_endDate plan = ''2024-05-10''"
    using unchecked_intensities_imported by (auto split: sum.splits)
  with u have l: "importable_plan unchecked_intensities ''2024-05-01'' ''2024-05-10''" by blast
  have "ip_weeks backwards_import
      = calculateWeeks utc_date_parse (ip_startDate backwards_import) (ip_endDate backwards_import)"
    by (rule t [THEN conjunct2, THEN conjunct1, THEN mp, OF backwards_plan_imported(1)])
  then have w: "ip_weeks backwards_import
      = calculateWeeks utc_date_parse ''2024-05-10'' ''2024-05-01''"
    by (simp only: backwards_plan_imported(3,4))
  from t i backwards_plan_imported(8,9)
  have "\<exists>imported. processJSONFile counting_ids ''plan_1'' utc_date_parse backwards_file
           = Success imported
         \<and> ip_startDate imported = ''2024-05-10'' \<and> ip_endDate imported = ''2024-05-01''
         \<and> ip_weeks imported = calculateWeeks utc_date_parse ''2024-05-10'' ''2024-05-01''"
    by blast
  then have "\<exists>imported. processJSONFile counting_ids ''plan_1'' utc_date_parse backwards_file
           = Success imported
         \<and> ip_startDate imported = ''2024-05-10'' \<and> ip_endDate imported = ''2024-05-01''
         \<and> ip_weeks imported = Some 2"
    by (simp only: backwards_plan_imported(11))
  with i l w show ?thesis by (intro conjI)
qed

theorem json_import_checks_shape_only_counterexample:
  "isValidISODate utc_date_parse ''2024-05-10'' \<and> isValidISODate utc_date_parse ''2024-05-01''
   \<and> utc_date_parse ''2024-05-10'' = Some 1715299200000
   \<and> utc_date_parse ''2024-05-01'' = Some 1714521600000
   \<and> validateTrainingPlanJSON counting_ids ''plan_1'' utc_date_parse backwards_plan
       = Inr backwards_import
   \<and> ip_startDate backwards_import = ''2024-05-10''
   \<and> ip_endDate backwards_import = ''2024-05-01''
   \<and> processJSONFile counting_ids ''plan_1'' utc_date_parse backwards_file
       = Success (backwards_import\<lparr>ip_source := ''spring.json''\<rparr>)"
  by code_simp

end
